theory Spec2Isabelle
  imports Complex_Main "HOL-Library.Sublist"
begin

section \<open>Data model\<close>

subsection \<open>Expressions of the computer-algebra engine\<close>

text \<open>
  The library works on the expression trees of an external computer-algebra engine
  (\<^verbatim>\<open>import sympy as sp\<close>). The matchers only read the shape of a tree:
  \<^verbatim>\<open>isinstance(e, sp.Pow)\<close>, \<^verbatim>\<open>isinstance(e, sp.Mul)\<close>, \<^verbatim>\<open>e.func == sp.exp\<close>,
  \<^verbatim>\<open>e.base\<close>, \<^verbatim>\<open>e.exp\<close>, \<^verbatim>\<open>e.args\<close>, \<^verbatim>\<open>e.has(x)\<close> and structural equality
  (\<^verbatim>\<open>c == 1\<close>, \<^verbatim>\<open>expo != x\<close>). The tree is therefore a datatype with one constructor per
  node class the code distinguishes. Exact numbers are rationals (the engine keeps integers
  and rationals canonical, so \<^verbatim>\<open>c == 1\<close> is equality with \<open>Number 1\<close>); the functions
  \<^verbatim>\<open>exp\<close>, \<^verbatim>\<open>log\<close>, \<^verbatim>\<open>sin\<close>, \<^verbatim>\<open>cos\<close> are unary node classes (\<^verbatim>\<open>e.args\<close> is a 1-tuple);
  every other applied function or named constant is \<open>Func\<close>. Floating-point numbers and
  symbols carrying assumptions are outside the model.
\<close>

datatype expr =
    is_Symbol: Symbol string
  | is_Number: Number rat
  | is_Add: Add "expr list"
  | is_Mul: Mul "expr list"
  | is_Pow: Pow (base: expr) (exponent: expr)
  | is_Exp: Exp (arg: expr)
  | is_Log: Log (arg: expr)
  | is_Sin: Sin (arg: expr)
  | is_Cos: Cos (arg: expr)
  | is_Func: Func string "expr list"

text \<open>
  \<^verbatim>\<open>e.has(p)\<close>: some node of \<open>e\<close>, in pre-order, is structurally equal to \<open>p\<close>. The code
  only calls it with the differentiation symbol as \<open>p\<close>.
\<close>

fun has :: "expr \<Rightarrow> expr \<Rightarrow> bool" where
  "has (Symbol s) p = (Symbol s = p)"
| "has (Number q) p = (Number q = p)"
| "has (Add es) p = (Add es = p \<or> list_ex (\<lambda>e. has e p) es)"
| "has (Mul es) p = (Mul es = p \<or> list_ex (\<lambda>e. has e p) es)"
| "has (Pow b e) p = (Pow b e = p \<or> has b p \<or> has e p)"
| "has (Exp a) p = (Exp a = p \<or> has a p)"
| "has (Log a) p = (Log a = p \<or> has a p)"
| "has (Sin a) p = (Sin a = p \<or> has a p)"
| "has (Cos a) p = (Cos a = p \<or> has a p)"
| "has (Func f es) p = (Func f es = p \<or> list_ex (\<lambda>e. has e p) es)"

text \<open>\<^verbatim>\<open>list(rest.args) if isinstance(rest, sp.Mul) else [rest]\<close>\<close>

fun mul_factors :: "expr \<Rightarrow> expr list" where
  "mul_factors (Mul fs) = fs"
| "mul_factors rest = [rest]"

subsection \<open>Inputs, errors and results\<close>

text \<open>\<^verbatim>\<open>expr: Union[str, sp.Expr]\<close> and \<^verbatim>\<open>var: Union[str, sp.Symbol]\<close>.\<close>

datatype expr_input = Text string | Tree expr

datatype variable = VarName string | VarSymbol string

text \<open>
  The exceptions the code can raise: \<^verbatim>\<open>ValueError(message)\<close> from \<^verbatim>\<open>parse_expr\<close> and
  from the dispatcher; \<^verbatim>\<open>KeyError\<close> is what a missing key of \<^verbatim>\<open>rule_map\<close> would raise
  and \<^verbatim>\<open>AttributeError\<close> what \<^verbatim>\<open>result.applied\<close> would raise on \<^verbatim>\<open>None\<close>.
\<close>

datatype error = ValueError string | KeyError string | AttributeError string

record RuleResult =
  input_expr :: expr
  output_expr :: expr
  applied :: bool
  rule_name :: string
  message :: string
  steps :: "string list"

subsection \<open>The engine as a parameter\<close>

text \<open>
  Everything the code delegates to the engine is a field of this record: the parser
  (\<open>None\<close> when it raises), the rewriting functions, differentiation, the split into a
  variable-independent factor and the rest (\<^verbatim>\<open>as_independent(x, as_Add=False)\<close>), the
  polynomial test, the arithmetic of Python's operators on expressions (\<^verbatim>\<open>*\<close>, \<^verbatim>\<open>+\<close>,
  \<^verbatim>\<open>-\<close>, \<^verbatim>\<open>**\<close>, \<^verbatim>\<open>/\<close>, unary minus), which build canonical trees, the function
  constructors \<^verbatim>\<open>sp.exp\<close>, \<^verbatim>\<open>sp.log\<close>, \<^verbatim>\<open>sp.sin\<close>, \<^verbatim>\<open>sp.cos\<close>, and the printer
  \<^verbatim>\<open>str\<close>. Apart from the parser they are total functions, and the parser yields
  an expression or nothing. A text that the engine's parser turns into an object that is
  not an expression (a relation for \<^verbatim>\<open>x > 1\<close>, a tuple for \<^verbatim>\<open>1, 2\<close>) has no
  counterpart here: on such a text the code goes on with that object, see \<open>parse_expr\<close>.
\<close>

record engine =
  eng_parse :: "string \<Rightarrow> (string \<times> expr) list \<Rightarrow> expr option"
  eng_expand :: "expr \<Rightarrow> expr"
  eng_simplify :: "expr \<Rightarrow> expr"
  eng_factor_terms :: "expr \<Rightarrow> expr"
  eng_diff :: "expr \<Rightarrow> expr \<Rightarrow> expr"
  eng_as_independent :: "expr \<Rightarrow> expr \<Rightarrow> expr \<times> expr"
  eng_is_polynomial :: "expr \<Rightarrow> expr \<Rightarrow> bool"
  eng_mul :: "expr \<Rightarrow> expr \<Rightarrow> expr"
  eng_add :: "expr \<Rightarrow> expr \<Rightarrow> expr"
  eng_sub :: "expr \<Rightarrow> expr \<Rightarrow> expr"
  eng_pow :: "expr \<Rightarrow> expr \<Rightarrow> expr"
  eng_div :: "expr \<Rightarrow> expr \<Rightarrow> expr"
  eng_neg :: "expr \<Rightarrow> expr"
  eng_exp :: "expr \<Rightarrow> expr"
  eng_log :: "expr \<Rightarrow> expr"
  eng_sin :: "expr \<Rightarrow> expr"
  eng_cos :: "expr \<Rightarrow> expr"
  eng_str :: "expr \<Rightarrow> string"

section \<open>Python strings\<close>

text \<open>
  \<^verbatim>\<open>repr\<close> of a \<^verbatim>\<open>str\<close> (the \<^verbatim>\<open>!r\<close> of the two error messages), for code points
  below 256: the quote is \<^verbatim>\<open>"\<close> when the text has a \<^verbatim>\<open>'\<close> and no \<^verbatim>\<open>"\<close>, else
  \<^verbatim>\<open>'\<close>; the quote and the backslash are escaped, tab, newline and carriage return are
  written \<^verbatim>\<open>\t \n \r\<close>, other non-printable code points as \<^verbatim>\<open>\xhh\<close>.
\<close>

definition hex_digit :: "nat \<Rightarrow> char" where
  "hex_digit n = ''0123456789abcdef'' ! (n mod 16)"

definition py_printable :: "char \<Rightarrow> bool" where
  "py_printable c =
     (let n = (of_char c :: nat)
      in (32 \<le> n \<and> n < 127) \<or> (160 < n \<and> n \<noteq> 173))"

definition py_repr_quote :: "string \<Rightarrow> char" where
  "py_repr_quote s = (if CHR 0x27 \<in> set s \<and> CHR 0x22 \<notin> set s then CHR 0x22 else CHR 0x27)"

definition py_repr_char :: "char \<Rightarrow> char \<Rightarrow> string" where
  "py_repr_char q c =
     (if c = q \<or> c = CHR 0x5C then [CHR 0x5C, c]
      else if c = CHR 0x09 then [CHR 0x5C, CHR ''t'']
      else if c = CHR 0x0A then [CHR 0x5C, CHR ''n'']
      else if c = CHR 0x0D then [CHR 0x5C, CHR ''r'']
      else if py_printable c then [c]
      else [CHR 0x5C, CHR ''x'', hex_digit (of_char c div 16), hex_digit (of_char c)])"

definition py_repr :: "string \<Rightarrow> string" where
  "py_repr s = (let q = py_repr_quote s in [q] @ concat (map (py_repr_char q) s) @ [q])"

text \<open>
  A text of printable code points without \<^verbatim>\<open>'\<close> and backslash: its \<^verbatim>\<open>repr\<close> is the
  text between two \<^verbatim>\<open>'\<close>.
\<close>

definition py_plain :: "string \<Rightarrow> bool" where
  "py_plain s = list_all (\<lambda>c. py_printable c \<and> c \<noteq> CHR 0x27 \<and> c \<noteq> CHR 0x5C) s"

text \<open>\<^verbatim>\<open>sep.join(xs)\<close>\<close>

fun py_join :: "string \<Rightarrow> string list \<Rightarrow> string" where
  "py_join sep [] = []"
| "py_join sep [x] = x"
| "py_join sep (x # y # ys) = x @ sep @ py_join sep (y # ys)"

section \<open>The core module\<close>

text \<open>\<^verbatim>\<open>return var if isinstance(var, sp.Symbol) else sp.Symbol(str(var))\<close>\<close>

fun get_symbol :: "variable \<Rightarrow> expr" where
  "get_symbol (VarSymbol s) = Symbol s"
| "get_symbol (VarName s) = Symbol s"

text \<open>\<^verbatim>\<open>str(x)\<close> of a symbol is its name; the code applies it to \<open>get_symbol var\<close> only.\<close>

fun str_symbol :: "expr \<Rightarrow> string" where
  "str_symbol (Symbol s) = s"
| "str_symbol e = []"

text \<open>
  \<^verbatim>\<open>parse_expr\<close>: an expression is returned as it is; a text goes to the engine's
  parser with \<^verbatim>\<open>local_dict or {}\<close>, and any exception of the parser becomes the
  \<^verbatim>\<open>ValueError\<close> with the fixed message. The code returns what the parser yields
  without looking at it (the annotation \<^verbatim>\<open>-> sp.Expr\<close> is not enforced). The model
  covers the texts that the parser rejects or reads as an expression; where the parser
  yields another object, the code returns it all the same, and the calls that follow,
  made for expressions, can fail on it: on \<^verbatim>\<open>x > 1\<close> the power rule raises
  \<^verbatim>\<open>AttributeError\<close> in \<^verbatim>\<open>sp.expand(f)\<close> or \<^verbatim>\<open>f.is_polynomial(x)\<close>, outside
  any \<^verbatim>\<open>try\<close>. No statement below covers such a text.
\<close>

definition invalid_expression_message :: "string \<Rightarrow> string" where
  "invalid_expression_message t =
     ''Invalid expression: '' @ py_repr t @ ''. Please provide a valid math expression in x.''"

fun parse_expr :: "engine \<Rightarrow> expr_input \<Rightarrow> (string \<times> expr) list option \<Rightarrow> error + expr" where
  "parse_expr E (Tree e) local_dict = Inr e"
| "parse_expr E (Text t) local_dict =
     (case eng_parse E t (case local_dict of None \<Rightarrow> [] | Some d \<Rightarrow> d) of
        Some e \<Rightarrow> Inr e
      | None \<Rightarrow> Inl (ValueError (invalid_expression_message t)))"

definition not_applicable :: "expr \<Rightarrow> string \<Rightarrow> string \<Rightarrow> RuleResult" where
  "not_applicable input_e rule_n msg =
     \<lparr>input_expr = input_e, output_expr = input_e, applied = False,
      rule_name = rule_n, message = msg, steps = []\<rparr>"

section \<open>The rule matchers\<close>

definition apply_power_rule_derivative ::
  "engine \<Rightarrow> expr_input \<Rightarrow> variable \<Rightarrow> error + RuleResult" where
  "apply_power_rule_derivative E expr var =
     (let x = get_symbol var; rule_n = ''power_rule''
      in case parse_expr E expr (Some [(str_symbol x, x)]) of
           Inl err \<Rightarrow> Inl err
         | Inr f0 \<Rightarrow>
             let f = eng_expand E f0
             in if \<not> eng_is_polynomial E f x
                then Inr (not_applicable f rule_n
                  ''Not applicable: expression is not a polynomial in x (power-rule mode).'')
                else
                  let out = eng_simplify E (eng_diff E f x)
                  in Inr \<lparr>input_expr = f, output_expr = out, applied = True,
                          rule_name = rule_n,
                          message = ''Applied power rule term-by-term (polynomial).'',
                          steps = [''Recognize polynomial in x.'', ''Differentiate each term.'']\<rparr>)"

definition apply_constant_multiple_derivative ::
  "engine \<Rightarrow> expr_input \<Rightarrow> variable \<Rightarrow> error + RuleResult" where
  "apply_constant_multiple_derivative E expr var =
     (let x = get_symbol var; rule_n = ''constant_multiple_rule''
      in case parse_expr E expr (Some [(str_symbol x, x)]) of
           Inl err \<Rightarrow> Inl err
         | Inr f \<Rightarrow>
             let f_s = eng_factor_terms E f;
                 (c, rest) = eng_as_independent E f_s x
             in if c = Number 1
                then Inr (not_applicable f_s rule_n
                  ''Not applicable: no constant multiple factor found.'')
                else
                  let out = eng_simplify E (eng_mul E c (eng_diff E rest x))
                  in Inr \<lparr>input_expr = f_s, output_expr = out, applied = True,
                          rule_name = rule_n,
                          message = ''Applied constant multiple rule for derivatives.'',
                          steps = [''Factor out constant c = '' @ eng_str E c @ ''.'',
                                   ''Differentiate the remaining part.'']\<rparr>)"

definition apply_product_rule ::
  "engine \<Rightarrow> expr_input \<Rightarrow> variable \<Rightarrow> error + RuleResult" where
  "apply_product_rule E expr var =
     (let x = get_symbol var; rule_n = ''product_rule''
      in case parse_expr E expr (Some [(str_symbol x, x)]) of
           Inl err \<Rightarrow> Inl err
         | Inr e0 \<Rightarrow>
             let e = eng_simplify E e0
             in if \<not> is_Mul e
                then Inr (not_applicable e rule_n ''Not applicable: expression is not a product.'')
                else
                  let (c, rest) = eng_as_independent E e x;
                      factors = mul_factors rest;
                      nonconst = filter (\<lambda>f. has f x) factors
                  in if length nonconst \<noteq> 2
                     then Inr (not_applicable e rule_n
                       ''Not applicable: product rule requires exactly two x-dependent factors (simple mode).'')
                     else
                       let f1 = nonconst ! 0; f2 = nonconst ! 1;
                           out = eng_simplify E
                                   (eng_mul E c
                                      (eng_add E (eng_mul E f1 (eng_diff E f2 x))
                                                 (eng_mul E (eng_diff E f1 x) f2)))
                       in Inr \<lparr>input_expr = e, output_expr = out, applied = True,
                               rule_name = rule_n,
                               message = ''Applied product rule.'',
                               steps = [''Identify f(x) and g(x).'', ''Compute f g' + f' g.'']\<rparr>)"

definition apply_chain_rule ::
  "engine \<Rightarrow> expr_input \<Rightarrow> variable \<Rightarrow> error + RuleResult" where
  "apply_chain_rule E expr var =
     (let x = get_symbol var; rule_n = ''chain_rule''
      in case parse_expr E expr (Some [(str_symbol x, x)]) of
           Inl err \<Rightarrow> Inl err
         | Inr e0 \<Rightarrow>
             let e = eng_simplify E e0
             in if is_Pow e \<and> has (base e) x \<and> \<not> has (exponent e) x \<and> exponent e \<noteq> Number 1
                then
                  let g = base e; n = exponent e;
                      out = eng_simplify E
                              (eng_mul E (eng_mul E n (eng_pow E g (eng_sub E n (Number 1))))
                                         (eng_diff E g x))
                  in Inr \<lparr>input_expr = e, output_expr = out, applied = True,
                          rule_name = rule_n,
                          message = ''Applied chain rule for power of inner function.'',
                          steps = [''Match pattern (g(x))^n.'',
                                   ''Derivative: n*(g(x))^(n-1)*g'(x).'']\<rparr>
                else if is_Exp e \<and> has (arg e) x
                then
                  let g = arg e;
                      out = eng_simplify E (eng_mul E (eng_exp E g) (eng_diff E g x))
                  in Inr \<lparr>input_expr = e, output_expr = out, applied = True,
                          rule_name = rule_n,
                          message = ''Applied chain rule for exponential.'',
                          steps = [''Match pattern exp(g(x)).'',
                                   ''Derivative: exp(g(x))*g'(x).'']\<rparr>
                else if is_Log e \<and> has (arg e) x
                then
                  let g = arg e;
                      out = eng_simplify E (eng_div E (eng_diff E g x) g)
                  in Inr \<lparr>input_expr = e, output_expr = out, applied = True,
                          rule_name = rule_n,
                          message = ''Applied chain rule for natural log.'',
                          steps = [''Match pattern ln(g(x)).'', ''Derivative: g'(x)/g(x).'']\<rparr>
                else if is_Sin e \<and> has (arg e) x
                then
                  let g = arg e;
                      out = eng_simplify E (eng_mul E (eng_cos E g) (eng_diff E g x))
                  in Inr \<lparr>input_expr = e, output_expr = out, applied = True,
                          rule_name = rule_n,
                          message = ''Applied chain rule for sine.'',
                          steps = [''Match pattern sin(g(x)).'',
                                   ''Derivative: cos(g(x))*g'(x).'']\<rparr>
                else if is_Cos e \<and> has (arg e) x
                then
                  let g = arg e;
                      out = eng_simplify E (eng_mul E (eng_neg E (eng_sin E g)) (eng_diff E g x))
                  in Inr \<lparr>input_expr = e, output_expr = out, applied = True,
                          rule_name = rule_n,
                          message = ''Applied chain rule for cosine.'',
                          steps = [''Match pattern cos(g(x)).'',
                                   ''Derivative: -sin(g(x))*g'(x).'']\<rparr>
                else Inr (not_applicable e rule_n
                  ''Not applicable: expression does not match supported chain-rule patterns (simple mode).''))"

definition apply_exponential_derivative_rule ::
  "engine \<Rightarrow> expr_input \<Rightarrow> variable \<Rightarrow> error + RuleResult" where
  "apply_exponential_derivative_rule E expr var =
     (let x = get_symbol var; rule_n = ''exponential_rule''
      in case parse_expr E expr (Some [(str_symbol x, x)]) of
           Inl err \<Rightarrow> Inl err
         | Inr e \<Rightarrow>
             if \<not> is_Pow e
             then Inr (not_applicable e rule_n ''Not applicable: expression is not a^x.'')
             else
               let a = base e; expo = exponent e
               in if expo \<noteq> x
                  then Inr (not_applicable e rule_n ''Not applicable: exponent is not x.'')
                  else if has a x
                  then Inr (not_applicable e rule_n ''Not applicable: base a is not constant.'')
                  else
                    let out = eng_simplify E (eng_mul E e (eng_log E a))
                    in Inr \<lparr>input_expr = e, output_expr = out, applied = True,
                            rule_name = rule_n,
                            message = ''Applied exponential derivative rule.'',
                            steps = [''Match pattern a^x with constant a.'',
                                     ''Derivative: a^x ln(a).'']\<rparr>)"

section \<open>The dispatcher and the fallback\<close>

type_synonym matcher = "engine \<Rightarrow> expr_input \<Rightarrow> variable \<Rightarrow> error + RuleResult"

text \<open>The dictionary \<^verbatim>\<open>rule_map\<close>, in insertion order.\<close>

definition rule_map :: "(string \<times> matcher) list" where
  "rule_map =
     [(''power_rule'', apply_power_rule_derivative),
      (''constant_multiple_rule'', apply_constant_multiple_derivative),
      (''product_rule'', apply_product_rule),
      (''chain_rule'', apply_chain_rule),
      (''exponential_rule'', apply_exponential_derivative_rule)]"

definition ordered_rules :: "string list" where
  "ordered_rules =
     [''power_rule'', ''constant_multiple_rule'', ''product_rule'', ''chain_rule'',
      ''exponential_rule'']"

text \<open>
  The \<^verbatim>\<open>for rule_name in ordered_rules\<close> loop of auto mode, with \<^verbatim>\<open>last_result\<close>
  threaded through; the value after the loop is \<^verbatim>\<open>last_result\<close>, \<^verbatim>\<open>None\<close> if the
  loop body never ran.
\<close>

fun auto_loop ::
  "engine \<Rightarrow> expr_input \<Rightarrow> variable \<Rightarrow> string list \<Rightarrow> RuleResult option
     \<Rightarrow> error + RuleResult option" where
  "auto_loop E expr var [] last_result = Inr last_result"
| "auto_loop E expr var (rule_n # rest) last_result =
     (case map_of rule_map rule_n of
        None \<Rightarrow> Inl (KeyError rule_n)
      | Some m \<Rightarrow>
          (case m E expr var of
             Inl err \<Rightarrow> Inl err
           | Inr result \<Rightarrow>
               if applied result then Inr (Some result)
               else auto_loop E expr var rest (Some result)))"

definition unknown_rule_message :: "string \<Rightarrow> string" where
  "unknown_rule_message rule =
     ''Unknown rule '' @ py_repr rule @ ''. Allowed values: ''
       @ py_join '', '' (''auto'' # map fst rule_map) @ ''.''"

definition apply_derivative_rule ::
  "engine \<Rightarrow> expr_input \<Rightarrow> variable \<Rightarrow> string \<Rightarrow> error + RuleResult option" where
  "apply_derivative_rule E expr var rule =
     (if rule = ''auto'' then auto_loop E expr var ordered_rules None
      else case map_of rule_map rule of
             None \<Rightarrow> Inl (ValueError (unknown_rule_message rule))
           | Some m \<Rightarrow> (case m E expr var of Inl err \<Rightarrow> Inl err | Inr r \<Rightarrow> Inr (Some r)))"

definition differentiate_with_rules ::
  "engine \<Rightarrow> expr_input \<Rightarrow> variable \<Rightarrow> error + RuleResult" where
  "differentiate_with_rules E expr var =
     (case apply_derivative_rule E expr var ''auto'' of
        Inl err \<Rightarrow> Inl err
      | Inr res \<Rightarrow>
          (case res of
             None \<Rightarrow> Inl (AttributeError ''applied'')
           | Some result \<Rightarrow>
               if applied result then Inr result
               else
                 let x = get_symbol var
                 in (case parse_expr E expr (Some [(str_symbol x, x)]) of
                       Inl err \<Rightarrow> Inl err
                     | Inr f \<Rightarrow>
                         let out = eng_simplify E (eng_diff E f x)
                         in Inr \<lparr>input_expr = f, output_expr = out, applied = True,
                                 rule_name = ''symbolic_fallback'',
                                 message = ''No simple rule matched; used symbolic differentiation fallback.'',
                                 steps = [''Apply generic symbolic derivative d/dx.'']\<rparr>)))"

section \<open>Vocabulary of the specification\<close>

text \<open>
  Every matcher and the fallback parse with \<^verbatim>\<open>local_dict={str(x): x}\<close>, where
  \<open>x = get_symbol var\<close>.
\<close>

definition local_dict_of :: "variable \<Rightarrow> (string \<times> expr) list" where
  "local_dict_of var = [(str_symbol (get_symbol var), get_symbol var)]"

definition parsed :: "engine \<Rightarrow> expr_input \<Rightarrow> variable \<Rightarrow> error + expr" where
  "parsed E expr var = parse_expr E expr (Some (local_dict_of var))"

text \<open>
  The invariant of a result: not applied means output equal to input and no steps;
  applied means some steps and a message; the rule name is set in both cases.
\<close>

definition result_invariant :: "RuleResult \<Rightarrow> bool" where
  "result_invariant r =
     ((\<not> applied r \<longrightarrow> output_expr r = input_expr r \<and> steps r = []) \<and>
      (applied r \<longrightarrow> steps r \<noteq> [] \<and> message r \<noteq> []) \<and>
      rule_name r \<noteq> [])"

definition well_formed_from :: "string \<Rightarrow> error + RuleResult \<Rightarrow> bool" where
  "well_formed_from rule_n res =
     (case res of Inl err \<Rightarrow> True | Inr r \<Rightarrow> result_invariant r \<and> rule_name r = rule_n)"

text \<open>
  The five outer forms of the chain rule and their closed forms, as the specification
  lists them: a power of an inner function with an exponent free of the variable and other
  than 1, and the exponential, logarithm, sine and cosine of an inner function, the inner
  function containing the variable in every case.
\<close>

definition chain_pattern :: "expr \<Rightarrow> expr \<Rightarrow> bool" where
  "chain_pattern e x =
     (case e of
        Pow g n \<Rightarrow> has g x \<and> \<not> has n x \<and> n \<noteq> Number 1
      | Exp g \<Rightarrow> has g x
      | Log g \<Rightarrow> has g x
      | Sin g \<Rightarrow> has g x
      | Cos g \<Rightarrow> has g x
      | _ \<Rightarrow> False)"

definition chain_closed_form :: "engine \<Rightarrow> expr \<Rightarrow> expr \<Rightarrow> expr" where
  "chain_closed_form E e x =
     (case e of
        Pow g n \<Rightarrow>
          eng_simplify E
            (eng_mul E (eng_mul E n (eng_pow E g (eng_sub E n (Number 1)))) (eng_diff E g x))
      | Exp g \<Rightarrow> eng_simplify E (eng_mul E (eng_exp E g) (eng_diff E g x))
      | Log g \<Rightarrow> eng_simplify E (eng_div E (eng_diff E g x) g)
      | Sin g \<Rightarrow> eng_simplify E (eng_mul E (eng_cos E g) (eng_diff E g x))
      | Cos g \<Rightarrow> eng_simplify E (eng_mul E (eng_neg E (eng_sin E g)) (eng_diff E g x))
      | _ \<Rightarrow> e)"

subsection \<open>Denotation of expressions\<close>

text \<open>
  "Output equal to \<open>3x^2 + 2x\<close>" is equality of the functions two trees denote, not of
  the trees (the engine is free in how it writes a result). \<open>eval \<phi> \<rho> e\<close> is the real
  value of \<open>e\<close> where \<open>\<rho>\<close> gives the symbols their values and \<open>\<phi>\<close> interprets the
  function symbols other than the four built-in ones. A power with an integer number as
  exponent is a repeated product (or its inverse); any other power is \<open>powr\<close>.
\<close>

fun eval :: "(string \<Rightarrow> real list \<Rightarrow> real) \<Rightarrow> (string \<Rightarrow> real) \<Rightarrow> expr \<Rightarrow> real" where
  "eval \<phi> \<rho> (Symbol s) = \<rho> s"
| "eval \<phi> \<rho> (Number q) = of_rat q"
| "eval \<phi> \<rho> (Add es) = sum_list (map (eval \<phi> \<rho>) es)"
| "eval \<phi> \<rho> (Mul es) = prod_list (map (eval \<phi> \<rho>) es)"
| "eval \<phi> \<rho> (Pow b e) =
     (case e of
        Number q \<Rightarrow>
          if of_int \<lfloor>q\<rfloor> = q
          then (if 0 \<le> q then eval \<phi> \<rho> b ^ nat \<lfloor>q\<rfloor> else inverse (eval \<phi> \<rho> b ^ nat \<lfloor>- q\<rfloor>))
          else eval \<phi> \<rho> b powr of_rat q
      | _ \<Rightarrow> eval \<phi> \<rho> b powr eval \<phi> \<rho> e)"
| "eval \<phi> \<rho> (Exp a) = exp (eval \<phi> \<rho> a)"
| "eval \<phi> \<rho> (Log a) = ln (eval \<phi> \<rho> a)"
| "eval \<phi> \<rho> (Sin a) = sin (eval \<phi> \<rho> a)"
| "eval \<phi> \<rho> (Cos a) = cos (eval \<phi> \<rho> a)"
| "eval \<phi> \<rho> (Func f es) = \<phi> f (map (eval \<phi> \<rho>) es)"

definition denotes_same :: "expr \<Rightarrow> expr \<Rightarrow> bool" where
  "denotes_same a b = (\<forall>\<phi> \<rho>. eval \<phi> \<rho> a = eval \<phi> \<rho> b)"

text \<open>\<open>d\<close> denotes the derivative of what \<open>e\<close> denotes, with respect to the symbol \<open>x\<close>.\<close>

definition derivative_of :: "expr \<Rightarrow> string \<Rightarrow> expr \<Rightarrow> bool" where
  "derivative_of d x e =
     (\<forall>\<phi> \<rho>. ((\<lambda>t. eval \<phi> (\<rho>(x := t)) e) has_real_derivative eval \<phi> \<rho> d) (at (\<rho> x)))"

section \<open>A reference engine\<close>

text \<open>
  A small engine of the shape the code expects, on which the statements below are
  exercised: canonical products and sums (numbers folded, neutral elements dropped),
  structural differentiation, the split of a product into its variable-free factors and
  the rest, the polynomial test, and a parser that knows the scenario texts of the
  specification. Its rewriting functions return their argument.
\<close>

fun mul_coeff :: "expr \<Rightarrow> rat" where
  "mul_coeff (Number q) = q"
| "mul_coeff (Mul (Number q # fs)) = q"
| "mul_coeff e = 1"

fun mul_rest :: "expr \<Rightarrow> expr list" where
  "mul_rest (Number q) = []"
| "mul_rest (Mul (Number q # fs)) = fs"
| "mul_rest (Mul fs) = fs"
| "mul_rest e = [e]"

definition mk_mul :: "rat \<Rightarrow> expr list \<Rightarrow> expr" where
  "mk_mul q fs =
     (if q = 0 then Number 0
      else if fs = [] then Number q
      else if q = 1 then (case fs of [f] \<Rightarrow> f | _ \<Rightarrow> Mul fs)
      else Mul (Number q # fs))"

definition ref_mul :: "expr \<Rightarrow> expr \<Rightarrow> expr" where
  "ref_mul a b = mk_mul (mul_coeff a * mul_coeff b) (mul_rest a @ mul_rest b)"

fun add_terms :: "expr \<Rightarrow> expr list" where
  "add_terms (Add ts) = ts"
| "add_terms e = [e]"

definition ref_add :: "expr \<Rightarrow> expr \<Rightarrow> expr" where
  "ref_add a b =
     (case (a, b) of
        (Number p, Number q) \<Rightarrow> Number (p + q)
      | _ \<Rightarrow>
          (case filter (\<lambda>t. t \<noteq> Number 0) (add_terms a @ add_terms b) of
             [] \<Rightarrow> Number 0
           | [t] \<Rightarrow> t
           | ts \<Rightarrow> Add ts))"

definition ref_neg :: "expr \<Rightarrow> expr" where
  "ref_neg a = ref_mul (Number (- 1)) a"

definition ref_sub :: "expr \<Rightarrow> expr \<Rightarrow> expr" where
  "ref_sub a b = ref_add a (ref_neg b)"

definition ref_pow :: "expr \<Rightarrow> expr \<Rightarrow> expr" where
  "ref_pow b e = (if e = Number 0 then Number 1 else if e = Number 1 then b else Pow b e)"

definition ref_div :: "expr \<Rightarrow> expr \<Rightarrow> expr" where
  "ref_div a b = ref_mul a (ref_pow b (Number (- 1)))"

definition ref_exp :: "expr \<Rightarrow> expr" where
  "ref_exp a = (if a = Number 0 then Number 1 else Exp a)"

definition ref_log :: "expr \<Rightarrow> expr" where
  "ref_log a = (if a = Number 1 then Number 0 else Log a)"

definition ref_sin :: "expr \<Rightarrow> expr" where
  "ref_sin a = (if a = Number 0 then Number 0 else Sin a)"

definition ref_cos :: "expr \<Rightarrow> expr" where
  "ref_cos a = (if a = Number 0 then Number 1 else Cos a)"

text \<open>Differentiation by the textbook rules; a tree without the variable has derivative 0.\<close>

fun diff_tree :: "expr \<Rightarrow> expr \<Rightarrow> expr"
  and diff_sum :: "expr list \<Rightarrow> expr \<Rightarrow> expr"
  and diff_prod :: "expr list \<Rightarrow> expr \<Rightarrow> expr" where
  "diff_tree (Symbol s) x = (if Symbol s = x then Number 1 else Number 0)"
| "diff_tree (Number q) x = Number 0"
| "diff_tree (Add ts) x = diff_sum ts x"
| "diff_tree (Mul fs) x = diff_prod fs x"
| "diff_tree (Pow b n) x =
     (if \<not> has n x
      then ref_mul (ref_mul n (ref_pow b (ref_sub n (Number 1)))) (diff_tree b x)
      else ref_mul (Pow b n)
             (ref_add (ref_mul (diff_tree n x) (ref_log b))
                      (ref_mul n (ref_div (diff_tree b x) b))))"
| "diff_tree (Exp a) x = ref_mul (Exp a) (diff_tree a x)"
| "diff_tree (Log a) x = ref_div (diff_tree a x) a"
| "diff_tree (Sin a) x = ref_mul (Cos a) (diff_tree a x)"
| "diff_tree (Cos a) x = ref_mul (ref_neg (Sin a)) (diff_tree a x)"
| "diff_tree (Func f es) x = Func ''Derivative'' [Func f es, x]"
| "diff_sum [] x = Number 0"
| "diff_sum (t # ts) x = ref_add (diff_tree t x) (diff_sum ts x)"
| "diff_prod [] x = Number 0"
| "diff_prod (f # fs) x =
     ref_add (ref_mul (diff_tree f x) (mk_mul 1 fs)) (ref_mul f (diff_prod fs x))"

definition ref_diff :: "expr \<Rightarrow> expr \<Rightarrow> expr" where
  "ref_diff e x = (if \<not> has e x then Number 0 else diff_tree e x)"

definition ref_as_independent :: "expr \<Rightarrow> expr \<Rightarrow> expr \<times> expr" where
  "ref_as_independent e x =
     (case e of
        Mul fs \<Rightarrow> (mk_mul 1 (filter (\<lambda>f. \<not> has f x) fs), mk_mul 1 (filter (\<lambda>f. has f x) fs))
      | _ \<Rightarrow> if has e x then (Number 1, e) else (e, Number 1))"

fun poly_tree :: "expr \<Rightarrow> expr \<Rightarrow> bool" where
  "poly_tree (Add ts) x = list_all (\<lambda>t. poly_tree t x) ts"
| "poly_tree (Mul fs) x = list_all (\<lambda>f. poly_tree f x) fs"
| "poly_tree (Pow b n) x =
     (if has n x then False
      else if has b x
      then poly_tree b x \<and> (case n of Number q \<Rightarrow> of_int \<lfloor>q\<rfloor> = q \<and> 0 \<le> q | _ \<Rightarrow> False)
      else True)"
| "poly_tree e x = (e = x \<or> \<not> has e x)"

definition ref_is_polynomial :: "expr \<Rightarrow> expr \<Rightarrow> bool" where
  "ref_is_polynomial e x = (\<not> has e x \<or> poly_tree e x)"

text \<open>The parser: the known texts, with the names of \<^verbatim>\<open>local_dict\<close> bound.\<close>

fun bind_names :: "(string \<times> expr) list \<Rightarrow> expr \<Rightarrow> expr" where
  "bind_names d (Symbol s) = (case map_of d s of Some v \<Rightarrow> v | None \<Rightarrow> Symbol s)"
| "bind_names d (Number q) = Number q"
| "bind_names d (Add es) = Add (map (bind_names d) es)"
| "bind_names d (Mul es) = Mul (map (bind_names d) es)"
| "bind_names d (Pow b e) = Pow (bind_names d b) (bind_names d e)"
| "bind_names d (Exp a) = Exp (bind_names d a)"
| "bind_names d (Log a) = Log (bind_names d a)"
| "bind_names d (Sin a) = Sin (bind_names d a)"
| "bind_names d (Cos a) = Cos (bind_names d a)"
| "bind_names d (Func f es) = Func f (map (bind_names d) es)"

definition known_texts :: "(string \<times> expr) list" where
  "known_texts =
     [(''x^3 + x^2 + 8'',
         Add [Pow (Symbol ''x'') (Number 3), Pow (Symbol ''x'') (Number 2), Number 8]),
      (''sin(x) + x^2'', Add [Sin (Symbol ''x''), Pow (Symbol ''x'') (Number 2)]),
      (''5*(x^2 + 1)'', Mul [Number 5, Add [Pow (Symbol ''x'') (Number 2), Number 1]]),
      (''(x+1)*(x+2)'',
         Mul [Add [Symbol ''x'', Number 1], Add [Symbol ''x'', Number 2]]),
      (''(x+1)*(x+2)*(x+3)'',
         Mul [Add [Symbol ''x'', Number 1], Add [Symbol ''x'', Number 2],
              Add [Symbol ''x'', Number 3]]),
      (''sin(2*x)'', Sin (Mul [Number 2, Symbol ''x''])),
      (''2^(3*x)'', Pow (Number 2) (Mul [Number 3, Symbol ''x''])),
      (''2^x'', Pow (Number 2) (Symbol ''x'')),
      (''x^x'', Pow (Symbol ''x'') (Symbol ''x'')),
      (''sin(y)'', Sin (Symbol ''y'')),
      (''7'', Number 7)]"

definition ref_parse :: "string \<Rightarrow> (string \<times> expr) list \<Rightarrow> expr option" where
  "ref_parse t d = map_option (bind_names d) (map_of known_texts t)"

text \<open>The printer, enough for the step texts: numbers, symbols and the node names.\<close>

fun digits_of :: "nat \<Rightarrow> nat \<Rightarrow> string" where
  "digits_of 0 n = []"
| "digits_of (Suc k) n =
     (if n < 10 then [''0123456789'' ! n]
      else digits_of k (n div 10) @ [''0123456789'' ! (n mod 10)])"

definition str_int :: "int \<Rightarrow> string" where
  "str_int i = (if i < 0 then ''-'' else []) @ digits_of (Suc (nat \<bar>i\<bar>)) (nat \<bar>i\<bar>)"

fun ref_str :: "expr \<Rightarrow> string" where
  "ref_str (Symbol s) = s"
| "ref_str (Number q) =
     (let (n, d) = quotient_of q
      in if d = 1 then str_int n else str_int n @ ''/'' @ str_int d)"
| "ref_str (Add es) = ''('' @ py_join '' + '' (map ref_str es) @ '')''"
| "ref_str (Mul es) = py_join ''*'' (map ref_str es)"
| "ref_str (Pow b e) = ref_str b @ ''**'' @ ref_str e"
| "ref_str (Exp a) = ''exp('' @ ref_str a @ '')''"
| "ref_str (Log a) = ''log('' @ ref_str a @ '')''"
| "ref_str (Sin a) = ''sin('' @ ref_str a @ '')''"
| "ref_str (Cos a) = ''cos('' @ ref_str a @ '')''"
| "ref_str (Func f es) = f @ ''('' @ py_join '', '' (map ref_str es) @ '')''"

definition ref_engine :: engine where
  "ref_engine =
     \<lparr>eng_parse = ref_parse,
      eng_expand = (\<lambda>e. e),
      eng_simplify = (\<lambda>e. e),
      eng_factor_terms = (\<lambda>e. e),
      eng_diff = ref_diff,
      eng_as_independent = ref_as_independent,
      eng_is_polynomial = ref_is_polynomial,
      eng_mul = ref_mul,
      eng_add = ref_add,
      eng_sub = ref_sub,
      eng_pow = ref_pow,
      eng_div = ref_div,
      eng_neg = ref_neg,
      eng_exp = ref_exp,
      eng_log = ref_log,
      eng_sin = ref_sin,
      eng_cos = ref_cos,
      eng_str = ref_str\<rparr>"

section \<open>Basic facts\<close>

lemma local_dict_of_simps [simp]:
  "local_dict_of (VarName s) = [(s, Symbol s)]"
  "local_dict_of (VarSymbol s) = [(s, Symbol s)]"
  by (simp_all add: local_dict_of_def)

lemma local_dict_of_get_symbol:
  "[(str_symbol (get_symbol var), get_symbol var)] = local_dict_of var"
  by (simp add: local_dict_of_def)

lemma parsed_Tree [simp]: "parsed E (Tree e) var = Inr e"
  by (simp add: parsed_def)

lemma parsed_Text:
  "parsed E (Text t) var =
     (case eng_parse E t (local_dict_of var) of
        Some e \<Rightarrow> Inr e
      | None \<Rightarrow> Inl (ValueError (invalid_expression_message t)))"
  by (simp add: parsed_def)

lemma parse_expr_parsed:
  "parse_expr E expr (Some [(str_symbol (get_symbol var), get_symbol var)]) = parsed E expr var"
  by (simp add: parsed_def local_dict_of_def)

lemma py_repr_char_plain:
  "py_printable c \<Longrightarrow> c \<noteq> CHR 0x27 \<Longrightarrow> c \<noteq> CHR 0x5C \<Longrightarrow> py_repr_char (CHR 0x27) c = [c]"
  by (auto simp: py_repr_char_def py_printable_def Let_def)

lemma concat_repr_plain:
  "py_plain s \<Longrightarrow> concat (map (py_repr_char (CHR 0x27)) s) = s"
  by (induction s) (simp_all add: py_plain_def py_repr_char_plain)

lemma py_plain_quote: "py_plain s \<Longrightarrow> py_repr_quote s = CHR 0x27"
  by (auto simp: py_plain_def py_repr_quote_def list_all_iff)

lemma py_repr_plain: "py_plain s \<Longrightarrow> py_repr s = CHR 0x27 # s @ [CHR 0x27]"
  by (simp add: py_repr_def Let_def py_plain_quote concat_repr_plain)

section \<open>Results of the matchers are well formed\<close>

lemma result_invariant_not_applicable:
  "rule_n \<noteq> [] \<Longrightarrow> result_invariant (not_applicable e rule_n msg)"
  by (simp add: result_invariant_def not_applicable_def)

lemma result_invariant_applied:
  "rule_n \<noteq> [] \<Longrightarrow> msg \<noteq> [] \<Longrightarrow> st \<noteq> [] \<Longrightarrow>
   result_invariant \<lparr>input_expr = e, output_expr = out, applied = True, rule_name = rule_n,
     message = msg, steps = st\<rparr>"
  by (simp add: result_invariant_def)

lemma wf_Inl: "well_formed_from n (Inl err)"
  by (simp add: well_formed_from_def)

lemma wf_not_applicable: "n \<noteq> [] \<Longrightarrow> well_formed_from n (Inr (not_applicable e n msg))"
  by (simp add: well_formed_from_def result_invariant_not_applicable)
     (simp add: not_applicable_def)

lemma wf_applied:
  "n \<noteq> [] \<Longrightarrow> msg \<noteq> [] \<Longrightarrow> st \<noteq> [] \<Longrightarrow>
   well_formed_from n (Inr \<lparr>input_expr = e, output_expr = out, applied = True, rule_name = n,
     message = msg, steps = st\<rparr>)"
  by (simp add: well_formed_from_def result_invariant_applied)

lemma wf_Inr: "well_formed_from n res \<Longrightarrow> res = Inr r \<Longrightarrow> result_invariant r \<and> rule_name r = n"
  by (simp add: well_formed_from_def)

lemma power_rule_wf: "well_formed_from ''power_rule'' (apply_power_rule_derivative E expr var)"
  unfolding apply_power_rule_derivative_def Let_def
  by (simp add: wf_Inl wf_not_applicable wf_applied split: sum.split)

lemma constant_multiple_wf:
  "well_formed_from ''constant_multiple_rule'' (apply_constant_multiple_derivative E expr var)"
  unfolding apply_constant_multiple_derivative_def Let_def
  by (simp add: wf_Inl wf_not_applicable wf_applied split: sum.split prod.split)

lemma product_rule_wf: "well_formed_from ''product_rule'' (apply_product_rule E expr var)"
  unfolding apply_product_rule_def Let_def
  by (simp add: wf_Inl wf_not_applicable wf_applied split: sum.split prod.split)

lemma chain_rule_wf: "well_formed_from ''chain_rule'' (apply_chain_rule E expr var)"
  unfolding apply_chain_rule_def Let_def
  by (simp add: wf_Inl wf_not_applicable wf_applied split: sum.split)

lemma exponential_rule_wf:
  "well_formed_from ''exponential_rule'' (apply_exponential_derivative_rule E expr var)"
  unfolding apply_exponential_derivative_rule_def Let_def
  by (simp add: wf_Inl wf_not_applicable wf_applied split: sum.split)

lemma map_of_rule_map:
  "map_of rule_map n =
     (if n = ''power_rule'' then Some apply_power_rule_derivative
      else if n = ''constant_multiple_rule'' then Some apply_constant_multiple_derivative
      else if n = ''product_rule'' then Some apply_product_rule
      else if n = ''chain_rule'' then Some apply_chain_rule
      else if n = ''exponential_rule'' then Some apply_exponential_derivative_rule
      else None)"
  by (simp add: rule_map_def)

lemma rule_map_wf: "map_of rule_map n = Some m \<Longrightarrow> well_formed_from n (m E expr var)"
  by (simp add: map_of_rule_map power_rule_wf constant_multiple_wf product_rule_wf
      chain_rule_wf exponential_rule_wf split: if_splits)

lemma set_rule_map:
  "snd ` set rule_map =
     {apply_power_rule_derivative, apply_constant_multiple_derivative, apply_product_rule,
      apply_chain_rule, apply_exponential_derivative_rule}"
  by (simp add: rule_map_def)

section \<open>Errors of the matchers\<close>

text \<open>An error of parsing is passed on by every matcher.\<close>

lemma power_rule_parse_error:
  "parsed E expr var = Inl err \<Longrightarrow> apply_power_rule_derivative E expr var = Inl err"
  unfolding apply_power_rule_derivative_def Let_def parse_expr_parsed
  by simp

lemma constant_multiple_parse_error:
  "parsed E expr var = Inl err \<Longrightarrow> apply_constant_multiple_derivative E expr var = Inl err"
  unfolding apply_constant_multiple_derivative_def Let_def parse_expr_parsed
  by simp

lemma product_rule_parse_error:
  "parsed E expr var = Inl err \<Longrightarrow> apply_product_rule E expr var = Inl err"
  unfolding apply_product_rule_def Let_def parse_expr_parsed
  by simp

lemma chain_rule_parse_error:
  "parsed E expr var = Inl err \<Longrightarrow> apply_chain_rule E expr var = Inl err"
  unfolding apply_chain_rule_def Let_def parse_expr_parsed
  by simp

lemma exponential_rule_parse_error:
  "parsed E expr var = Inl err \<Longrightarrow> apply_exponential_derivative_rule E expr var = Inl err"
  unfolding apply_exponential_derivative_rule_def Let_def parse_expr_parsed
  by simp

lemma matcher_parse_error:
  "m \<in> snd ` set rule_map \<Longrightarrow> parsed E expr var = Inl err \<Longrightarrow> m E expr var = Inl err"
  unfolding set_rule_map
  by (auto simp: power_rule_parse_error constant_multiple_parse_error product_rule_parse_error
      chain_rule_parse_error exponential_rule_parse_error)

section \<open>The dispatcher: auto mode and named rules\<close>

lemma auto_loop_first:
  assumes "auto_loop E expr var rs last_result = Inr res" and "rs \<noteq> []"
  shows "\<exists>i r m. i < length rs \<and> res = Some r \<and> map_of rule_map (rs ! i) = Some m \<and>
           m E expr var = Inr r \<and> (applied r \<or> Suc i = length rs) \<and>
           (\<forall>j<i. \<exists>mj rj. map_of rule_map (rs ! j) = Some mj \<and> mj E expr var = Inr rj \<and>
                     \<not> applied rj)"
  using assms
proof (induction rs arbitrary: last_result)
  case Nil
  then show ?case by simp
next
  case (Cons rn rest)
  from Cons.prems(1) obtain m where m: "map_of rule_map rn = Some m"
    by (cases "map_of rule_map rn") simp_all
  from Cons.prems(1) m obtain result where result: "m E expr var = Inr result"
    by (cases "m E expr var") simp_all
  show ?case
  proof (cases "applied result \<or> rest = []")
    case True
    with Cons.prems(1) m result have "res = Some result"
      by (auto split: if_splits)
    with m result True show ?thesis
      by (intro exI [of _ 0] exI [of _ result] exI [of _ m]) auto
  next
    case False
    with Cons.prems(1) m result
    have "auto_loop E expr var rest (Some result) = Inr res" by simp
    from Cons.IH [OF this] False obtain i r m' where
      i: "i < length rest" "res = Some r" "map_of rule_map (rest ! i) = Some m'"
         "m' E expr var = Inr r" "applied r \<or> Suc i = length rest"
         "\<forall>j<i. \<exists>mj rj. map_of rule_map (rest ! j) = Some mj \<and> mj E expr var = Inr rj \<and>
                     \<not> applied rj"
      by blast
    have "\<forall>j<Suc i. \<exists>mj rj. map_of rule_map ((rn # rest) ! j) = Some mj \<and>
             mj E expr var = Inr rj \<and> \<not> applied rj"
    proof (intro allI impI)
      fix j assume "j < Suc i"
      show "\<exists>mj rj. map_of rule_map ((rn # rest) ! j) = Some mj \<and>
             mj E expr var = Inr rj \<and> \<not> applied rj"
      proof (cases j)
        case 0
        with m result False show ?thesis by auto
      next
        case (Suc j')
        with \<open>j < Suc i\<close> i(6) show ?thesis by simp
      qed
    qed
    with i show ?thesis
      by (intro exI [of _ "Suc i"] exI [of _ r] exI [of _ m']) simp
  qed
qed

lemma auto_unfolded:
  "apply_derivative_rule E expr var ''auto'' =
     (case apply_power_rule_derivative E expr var of
        Inl err \<Rightarrow> Inl err
      | Inr r1 \<Rightarrow>
          if applied r1 then Inr (Some r1)
          else (case apply_constant_multiple_derivative E expr var of
                  Inl err \<Rightarrow> Inl err
                | Inr r2 \<Rightarrow>
                    if applied r2 then Inr (Some r2)
                    else (case apply_product_rule E expr var of
                            Inl err \<Rightarrow> Inl err
                          | Inr r3 \<Rightarrow>
                              if applied r3 then Inr (Some r3)
                              else (case apply_chain_rule E expr var of
                                      Inl err \<Rightarrow> Inl err
                                    | Inr r4 \<Rightarrow>
                                        if applied r4 then Inr (Some r4)
                                        else (case apply_exponential_derivative_rule E expr var of
                                                Inl err \<Rightarrow> Inl err
                                              | Inr r5 \<Rightarrow> Inr (Some r5))))))"
  by (simp add: apply_derivative_rule_def ordered_rules_def map_of_rule_map split: sum.split)

lemma specific_rule:
  "map_of rule_map rule = Some m \<Longrightarrow>
   apply_derivative_rule E expr var rule =
     (case m E expr var of Inl err \<Rightarrow> Inl err | Inr r \<Rightarrow> Inr (Some r))"
  by (simp add: apply_derivative_rule_def map_of_rule_map split: if_splits)

lemma unknown_rule:
  "rule \<noteq> ''auto'' \<Longrightarrow> map_of rule_map rule = None \<Longrightarrow>
   apply_derivative_rule E expr var rule = Inl (ValueError (unknown_rule_message rule))"
  by (simp add: apply_derivative_rule_def)

lemma dispatcher_result:
  assumes "apply_derivative_rule E expr var rule = Inr res"
  shows "\<exists>r. res = Some r \<and> result_invariant r \<and> rule_name r \<in> set ordered_rules"
proof (cases "rule = ''auto''")
  case True
  with assms have "auto_loop E expr var ordered_rules None = Inr res"
    by (simp add: apply_derivative_rule_def)
  from auto_loop_first [OF this] obtain i r m where
    *: "i < length ordered_rules" "res = Some r" "map_of rule_map (ordered_rules ! i) = Some m"
       "m E expr var = Inr r"
    by (auto simp: ordered_rules_def)
  from rule_map_wf [OF *(3), of E expr var] *(4)
  have "result_invariant r \<and> rule_name r = ordered_rules ! i"
    by (simp add: well_formed_from_def)
  with * show ?thesis by simp
next
  case False
  with assms obtain m where m: "map_of rule_map rule = Some m"
    by (cases "map_of rule_map rule") (simp_all add: apply_derivative_rule_def)
  with assms obtain r where r: "m E expr var = Inr r" "res = Some r"
    by (cases "m E expr var") (simp_all add: specific_rule)
  from rule_map_wf [OF m, of E expr var] r
  have "result_invariant r \<and> rule_name r = rule"
    by (simp add: well_formed_from_def)
  moreover from m have "rule \<in> set ordered_rules"
    by (simp add: map_of_rule_map ordered_rules_def split: if_splits)
  ultimately show ?thesis using r by simp
qed

section \<open>The fallback\<close>

lemma matcher_wf:
  assumes "m \<in> snd ` set rule_map" and "m E expr var = Inr r"
  shows "result_invariant r \<and> rule_name r \<in> set ordered_rules"
proof -
  from assms(1) obtain n where n: "(n, m) \<in> set rule_map" by auto
  have "distinct (map fst rule_map)" by (simp add: rule_map_def)
  with n have m: "map_of rule_map n = Some m" by simp
  from rule_map_wf [OF m, of E expr var] assms(2)
  have "result_invariant r \<and> rule_name r = n" by (simp add: well_formed_from_def)
  moreover from n have "n \<in> set ordered_rules"
    by (auto simp: rule_map_def ordered_rules_def)
  ultimately show ?thesis by simp
qed

lemma dispatcher_parsed:
  assumes "apply_derivative_rule E expr var ''auto'' = Inr res"
  shows "\<exists>f. parsed E expr var = Inr f"
proof (cases "parsed E expr var")
  case (Inl err)
  then have "apply_power_rule_derivative E expr var = Inl err"
    by (rule power_rule_parse_error)
  with assms show ?thesis by (simp add: auto_unfolded)
next
  case (Inr f)
  then show ?thesis by simp
qed

lemma differentiate_unfolded:
  "differentiate_with_rules E expr var =
     (case apply_derivative_rule E expr var ''auto'' of
        Inl err \<Rightarrow> Inl err
      | Inr res \<Rightarrow>
          (case res of
             None \<Rightarrow> Inl (AttributeError ''applied'')
           | Some result \<Rightarrow>
               if applied result then Inr result
               else (case parsed E expr var of
                       Inl err \<Rightarrow> Inl err
                     | Inr f \<Rightarrow>
                         Inr \<lparr>input_expr = f,
                              output_expr = eng_simplify E (eng_diff E f (get_symbol var)),
                              applied = True, rule_name = ''symbolic_fallback'',
                              message = ''No simple rule matched; used symbolic differentiation fallback.'',
                              steps = [''Apply generic symbolic derivative d/dx.'']\<rparr>)))"
  unfolding differentiate_with_rules_def Let_def parse_expr_parsed
  by (rule refl)

lemma differentiate_result:
  assumes "differentiate_with_rules E expr var = Inr r"
  shows "result_invariant r \<and> applied r"
proof -
  from assms obtain res where res: "apply_derivative_rule E expr var ''auto'' = Inr res"
    by (cases "apply_derivative_rule E expr var ''auto''") (simp_all add: differentiate_unfolded)
  from dispatcher_result [OF res] obtain r0 where r0: "res = Some r0" "result_invariant r0"
    by blast
  from dispatcher_parsed [OF res] obtain f where f: "parsed E expr var = Inr f" by blast
  show ?thesis
  proof (cases "applied r0")
    case True
    with assms res r0 show ?thesis by (simp add: differentiate_unfolded)
  next
    case False
    with assms res r0 f show ?thesis
      by (auto simp: differentiate_unfolded result_invariant_def)
  qed
qed

section \<open>Facts about the reference engine\<close>

lemma ref_engine_simps [simp]:
  "eng_parse ref_engine = ref_parse"
  "eng_expand ref_engine = (\<lambda>e. e)"
  "eng_simplify ref_engine = (\<lambda>e. e)"
  "eng_factor_terms ref_engine = (\<lambda>e. e)"
  "eng_diff ref_engine = ref_diff"
  "eng_as_independent ref_engine = ref_as_independent"
  "eng_is_polynomial ref_engine = ref_is_polynomial"
  "eng_mul ref_engine = ref_mul"
  "eng_add ref_engine = ref_add"
  "eng_sub ref_engine = ref_sub"
  "eng_pow ref_engine = ref_pow"
  "eng_div ref_engine = ref_div"
  "eng_neg ref_engine = ref_neg"
  "eng_exp ref_engine = ref_exp"
  "eng_log ref_engine = ref_log"
  "eng_sin ref_engine = ref_sin"
  "eng_cos ref_engine = ref_cos"
  "eng_str ref_engine = ref_str"
  by (simp_all add: ref_engine_def)

section \<open>Properties of the matchers, the dispatcher and the fallback\<close>

text \<open>
  C1. For every matcher, and for the dispatcher and the fallback that return their
  results, a returned result satisfies the invariant: not applied means the output is the
  input and there are no steps; applied means there are steps and a message; the rule
  name is set in both cases. The dispatcher never returns \<^verbatim>\<open>None\<close>.
\<close>

theorem rule_result_invariant:
  "(\<forall>m \<in> snd ` set rule_map. \<forall>r. m E expr var = Inr r \<longrightarrow> result_invariant r) \<and>
   (\<forall>res. apply_derivative_rule E expr var rule = Inr res \<longrightarrow>
      (\<exists>r. res = Some r \<and> result_invariant r)) \<and>
   (\<forall>r. differentiate_with_rules E expr var = Inr r \<longrightarrow> result_invariant r)"
proof (intro conjI ballI allI impI)
  fix m r assume "m \<in> snd ` set rule_map" "m E expr var = Inr r"
  then show "result_invariant r" using matcher_wf by blast
next
  fix res assume "apply_derivative_rule E expr var rule = Inr res"
  from dispatcher_result [OF this] show "\<exists>r. res = Some r \<and> result_invariant r" by blast
next
  fix r assume "differentiate_with_rules E expr var = Inr r"
  from differentiate_result [OF this] show "result_invariant r" by simp
qed

theorem rule_result_invariant_witness:
  "apply_product_rule \<in> snd ` set rule_map \<and>
   apply_product_rule ref_engine (Text ''(x+1)*(x+2)*(x+3)'') (VarName ''x'') =
     Inr (not_applicable
            (Mul [Add [Symbol ''x'', Number 1], Add [Symbol ''x'', Number 2],
                  Add [Symbol ''x'', Number 3]])
            ''product_rule''
            ''Not applicable: product rule requires exactly two x-dependent factors (simple mode).'') \<and>
   result_invariant
     (not_applicable
        (Mul [Add [Symbol ''x'', Number 1], Add [Symbol ''x'', Number 2],
              Add [Symbol ''x'', Number 3]])
        ''product_rule''
        ''Not applicable: product rule requires exactly two x-dependent factors (simple mode).'') \<and>
   apply_derivative_rule ref_engine (Text ''(x+1)*(x+2)*(x+3)'') (VarName ''x'') ''chain_rule'' =
     Inr (Some (not_applicable
            (Mul [Add [Symbol ''x'', Number 1], Add [Symbol ''x'', Number 2],
                  Add [Symbol ''x'', Number 3]])
            ''chain_rule''
            ''Not applicable: expression does not match supported chain-rule patterns (simple mode).'')) \<and>
   result_invariant
     (not_applicable
        (Mul [Add [Symbol ''x'', Number 1], Add [Symbol ''x'', Number 2],
              Add [Symbol ''x'', Number 3]])
        ''chain_rule''
        ''Not applicable: expression does not match supported chain-rule patterns (simple mode).'') \<and>
   differentiate_with_rules ref_engine (Text ''x^x'') (VarName ''x'') =
     Inr \<lparr>input_expr = Pow (Symbol ''x'') (Symbol ''x''),
          output_expr =
            Mul [Pow (Symbol ''x'') (Symbol ''x''),
                 Add [Log (Symbol ''x''),
                      Mul [Symbol ''x'', Pow (Symbol ''x'') (Number (- 1))]]],
          applied = True, rule_name = ''symbolic_fallback'',
          message = ''No simple rule matched; used symbolic differentiation fallback.'',
          steps = [''Apply generic symbolic derivative d/dx.'']\<rparr> \<and>
   result_invariant
     \<lparr>input_expr = Pow (Symbol ''x'') (Symbol ''x''),
          output_expr =
            Mul [Pow (Symbol ''x'') (Symbol ''x''),
                 Add [Log (Symbol ''x''),
                      Mul [Symbol ''x'', Pow (Symbol ''x'') (Number (- 1))]]],
          applied = True, rule_name = ''symbolic_fallback'',
          message = ''No simple rule matched; used symbolic differentiation fallback.'',
          steps = [''Apply generic symbolic derivative d/dx.'']\<rparr>"
proof -
  have a: "apply_product_rule \<in> snd ` set rule_map" by (simp add: set_rule_map)
  have b: "apply_product_rule ref_engine (Text ''(x+1)*(x+2)*(x+3)'') (VarName ''x'') =
     Inr (not_applicable
            (Mul [Add [Symbol ''x'', Number 1], Add [Symbol ''x'', Number 2],
                  Add [Symbol ''x'', Number 3]])
            ''product_rule''
            ''Not applicable: product rule requires exactly two x-dependent factors (simple mode).'')"
    by code_simp
  have c: "apply_derivative_rule ref_engine (Text ''(x+1)*(x+2)*(x+3)'') (VarName ''x'') ''chain_rule'' =
     Inr (Some (not_applicable
            (Mul [Add [Symbol ''x'', Number 1], Add [Symbol ''x'', Number 2],
                  Add [Symbol ''x'', Number 3]])
            ''chain_rule''
            ''Not applicable: expression does not match supported chain-rule patterns (simple mode).''))"
    by code_simp
  have d: "differentiate_with_rules ref_engine (Text ''x^x'') (VarName ''x'') =
     Inr \<lparr>input_expr = Pow (Symbol ''x'') (Symbol ''x''),
          output_expr =
            Mul [Pow (Symbol ''x'') (Symbol ''x''),
                 Add [Log (Symbol ''x''),
                      Mul [Symbol ''x'', Pow (Symbol ''x'') (Number (- 1))]]],
          applied = True, rule_name = ''symbolic_fallback'',
          message = ''No simple rule matched; used symbolic differentiation fallback.'',
          steps = [''Apply generic symbolic derivative d/dx.'']\<rparr>"
    by code_simp
  from a b c
    rule_result_invariant [of ref_engine "Text ''(x+1)*(x+2)*(x+3)''" "VarName ''x''" "''chain_rule''"]
  have "result_invariant
     (not_applicable
        (Mul [Add [Symbol ''x'', Number 1], Add [Symbol ''x'', Number 2],
              Add [Symbol ''x'', Number 3]])
        ''product_rule''
        ''Not applicable: product rule requires exactly two x-dependent factors (simple mode).'') \<and>
   result_invariant
     (not_applicable
        (Mul [Add [Symbol ''x'', Number 1], Add [Symbol ''x'', Number 2],
              Add [Symbol ''x'', Number 3]])
        ''chain_rule''
        ''Not applicable: expression does not match supported chain-rule patterns (simple mode).'')"
    by blast
  moreover from d rule_result_invariant [of ref_engine "Text ''x^x''" "VarName ''x''" "''auto''"]
  have "result_invariant
     \<lparr>input_expr = Pow (Symbol ''x'') (Symbol ''x''),
          output_expr =
            Mul [Pow (Symbol ''x'') (Symbol ''x''),
                 Add [Log (Symbol ''x''),
                      Mul [Symbol ''x'', Pow (Symbol ''x'') (Number (- 1))]]],
          applied = True, rule_name = ''symbolic_fallback'',
          message = ''No simple rule matched; used symbolic differentiation fallback.'',
          steps = [''Apply generic symbolic derivative d/dx.'']\<rparr>"
    by blast
  ultimately show ?thesis using a b c d by blast
qed

lemma exponential_not_applied:
  "apply_exponential_derivative_rule E expr var = Inr r \<Longrightarrow> \<not> applied r \<Longrightarrow>
   output_expr r = input_expr r \<and> steps r = [] \<and> rule_name r = ''exponential_rule''"
  using wf_Inr [OF exponential_rule_wf, of E expr var r]
  by (simp add: result_invariant_def)

text \<open>
  C2. In auto mode the dispatcher runs power rule, constant multiple rule, product rule,
  chain rule, exponential rule in this order and returns the first result that is applied:
  the returned result comes from the matcher at some position of the order at which every
  earlier matcher returned a result that is not applied, and its rule name is the name at
  that position. If no matcher applies, the result is the one of the exponential rule,
  not applied and with the input as output (no fallback differentiation).
\<close>

theorem auto_dispatch_order:
  "apply_derivative_rule E expr var ''auto'' =
     (case apply_power_rule_derivative E expr var of
        Inl err \<Rightarrow> Inl err
      | Inr r1 \<Rightarrow>
          if applied r1 then Inr (Some r1)
          else (case apply_constant_multiple_derivative E expr var of
                  Inl err \<Rightarrow> Inl err
                | Inr r2 \<Rightarrow>
                    if applied r2 then Inr (Some r2)
                    else (case apply_product_rule E expr var of
                            Inl err \<Rightarrow> Inl err
                          | Inr r3 \<Rightarrow>
                              if applied r3 then Inr (Some r3)
                              else (case apply_chain_rule E expr var of
                                      Inl err \<Rightarrow> Inl err
                                    | Inr r4 \<Rightarrow>
                                        if applied r4 then Inr (Some r4)
                                        else (case apply_exponential_derivative_rule E expr var of
                                                Inl err \<Rightarrow> Inl err
                                              | Inr r5 \<Rightarrow> Inr (Some r5)))))) \<and>
   (\<forall>res. apply_derivative_rule E expr var ''auto'' = Inr res \<longrightarrow>
      (\<exists>i r m. i < length ordered_rules \<and> res = Some r \<and>
         map_of rule_map (ordered_rules ! i) = Some m \<and> m E expr var = Inr r \<and>
         rule_name r = ordered_rules ! i \<and>
         (\<forall>j<i. \<exists>mj rj. map_of rule_map (ordered_rules ! j) = Some mj \<and>
                   mj E expr var = Inr rj \<and> \<not> applied rj) \<and>
         (\<not> applied r \<longrightarrow>
            ordered_rules ! i = ''exponential_rule'' \<and> output_expr r = input_expr r \<and>
            steps r = [])))"
proof (intro conjI allI impI)
  fix res assume "apply_derivative_rule E expr var ''auto'' = Inr res"
  then have "auto_loop E expr var ordered_rules None = Inr res"
    by (simp add: apply_derivative_rule_def)
  from auto_loop_first [OF this] obtain i r m where
    *: "i < length ordered_rules" "res = Some r" "map_of rule_map (ordered_rules ! i) = Some m"
       "m E expr var = Inr r" "applied r \<or> Suc i = length ordered_rules"
       "\<forall>j<i. \<exists>mj rj. map_of rule_map (ordered_rules ! j) = Some mj \<and>
                 mj E expr var = Inr rj \<and> \<not> applied rj"
    by (auto simp: ordered_rules_def)
  from rule_map_wf [OF *(3), of E expr var] *(4)
  have name: "rule_name r = ordered_rules ! i"
    by (simp add: well_formed_from_def)
  have last: "ordered_rules ! i = ''exponential_rule'' \<and> output_expr r = input_expr r \<and>
      steps r = []" if "\<not> applied r"
  proof -
    from that *(5) have i: "i = 4" by (simp add: ordered_rules_def)
    then have "ordered_rules ! i = ''exponential_rule''" by (simp add: ordered_rules_def)
    moreover from this *(3) have "m = apply_exponential_derivative_rule"
      by (simp add: map_of_rule_map)
    ultimately show ?thesis using exponential_not_applied *(4) that by simp
  qed
  from * name last
  show "\<exists>i r m. i < length ordered_rules \<and> res = Some r \<and>
         map_of rule_map (ordered_rules ! i) = Some m \<and> m E expr var = Inr r \<and>
         rule_name r = ordered_rules ! i \<and>
         (\<forall>j<i. \<exists>mj rj. map_of rule_map (ordered_rules ! j) = Some mj \<and>
                   mj E expr var = Inr rj \<and> \<not> applied rj) \<and>
         (\<not> applied r \<longrightarrow>
            ordered_rules ! i = ''exponential_rule'' \<and> output_expr r = input_expr r \<and>
            steps r = [])"
    by blast
qed (rule auto_unfolded)

theorem auto_dispatch_order_witness:
  "apply_derivative_rule ref_engine (Text ''sin(2*x)'') (VarName ''x'') ''auto'' =
     Inr (Some \<lparr>input_expr = Sin (Mul [Number 2, Symbol ''x'']),
                output_expr = Mul [Number 2, Cos (Mul [Number 2, Symbol ''x''])],
                applied = True, rule_name = ''chain_rule'',
                message = ''Applied chain rule for sine.'',
                steps = [''Match pattern sin(g(x)).'', ''Derivative: cos(g(x))*g'(x).'']\<rparr>) \<and>
   (\<exists>i m. i < length ordered_rules \<and> ordered_rules ! i = ''chain_rule'' \<and>
      map_of rule_map (ordered_rules ! i) = Some m \<and>
      m ref_engine (Text ''sin(2*x)'') (VarName ''x'') =
        Inr \<lparr>input_expr = Sin (Mul [Number 2, Symbol ''x'']),
             output_expr = Mul [Number 2, Cos (Mul [Number 2, Symbol ''x''])],
             applied = True, rule_name = ''chain_rule'',
             message = ''Applied chain rule for sine.'',
             steps = [''Match pattern sin(g(x)).'', ''Derivative: cos(g(x))*g'(x).'']\<rparr> \<and>
      (\<forall>j<i. \<exists>mj rj. map_of rule_map (ordered_rules ! j) = Some mj \<and>
                mj ref_engine (Text ''sin(2*x)'') (VarName ''x'') = Inr rj \<and> \<not> applied rj))"
proof -
  have a: "apply_derivative_rule ref_engine (Text ''sin(2*x)'') (VarName ''x'') ''auto'' =
     Inr (Some \<lparr>input_expr = Sin (Mul [Number 2, Symbol ''x'']),
                output_expr = Mul [Number 2, Cos (Mul [Number 2, Symbol ''x''])],
                applied = True, rule_name = ''chain_rule'',
                message = ''Applied chain rule for sine.'',
                steps = [''Match pattern sin(g(x)).'', ''Derivative: cos(g(x))*g'(x).'']\<rparr>)"
    by code_simp
  let ?R = "\<lparr>input_expr = Sin (Mul [Number 2, Symbol ''x'']),
             output_expr = Mul [Number 2, Cos (Mul [Number 2, Symbol ''x''])],
             applied = True, rule_name = ''chain_rule'',
             message = ''Applied chain rule for sine.'',
             steps = [''Match pattern sin(g(x)).'', ''Derivative: cos(g(x))*g'(x).'']\<rparr>"
  from a auto_dispatch_order [of ref_engine "Text ''sin(2*x)''" "VarName ''x''"]
  obtain i r m where
    *: "i < length ordered_rules" "Some ?R = Some r"
       "map_of rule_map (ordered_rules ! i) = Some m"
       "m ref_engine (Text ''sin(2*x)'') (VarName ''x'') = Inr r"
       "rule_name r = ordered_rules ! i"
       "\<forall>j<i. \<exists>mj rj. map_of rule_map (ordered_rules ! j) = Some mj \<and>
                 mj ref_engine (Text ''sin(2*x)'') (VarName ''x'') = Inr rj \<and> \<not> applied rj"
    by blast
  from *(2) have r: "r = ?R" by simp
  with *(5) have "ordered_rules ! i = ''chain_rule''" by simp
  with * r a show ?thesis by blast
qed

text \<open>
  C9. A rule choice other than \<^verbatim>\<open>auto\<close> and the five rule names makes the dispatcher
  fail, before anything is parsed, with the \<^verbatim>\<open>ValueError\<close> whose message starts with
  "Unknown rule", carries the \<^verbatim>\<open>repr\<close> of the name and lists the six allowed values;
  for a name of plain characters the \<^verbatim>\<open>repr\<close> is the name between quotes, as for
  \<^verbatim>\<open>bad_rule\<close>.
\<close>

theorem unknown_rule_error:
  "(rule \<notin> {''auto'', ''power_rule'', ''constant_multiple_rule'', ''product_rule'',
              ''chain_rule'', ''exponential_rule''} \<longrightarrow>
      apply_derivative_rule E expr var rule =
        Inl (ValueError (''Unknown rule '' @ py_repr rule @
          ''. Allowed values: auto, power_rule, constant_multiple_rule, product_rule, chain_rule, exponential_rule.''))) \<and>
   (py_plain rule \<longrightarrow> py_repr rule = CHR 0x27 # rule @ [CHR 0x27]) \<and>
   apply_derivative_rule E expr var ''bad_rule'' =
     Inl (ValueError
       ''Unknown rule 'bad_rule'. Allowed values: auto, power_rule, constant_multiple_rule, product_rule, chain_rule, exponential_rule.'')"
proof (intro conjI impI)
  assume "rule \<notin> {''auto'', ''power_rule'', ''constant_multiple_rule'', ''product_rule'',
              ''chain_rule'', ''exponential_rule''}"
  then have "rule \<noteq> ''auto''" and "map_of rule_map rule = None"
    by (simp_all add: map_of_rule_map)
  then show "apply_derivative_rule E expr var rule =
        Inl (ValueError (''Unknown rule '' @ py_repr rule @
          ''. Allowed values: auto, power_rule, constant_multiple_rule, product_rule, chain_rule, exponential_rule.''))"
    by (simp add: unknown_rule unknown_rule_message_def rule_map_def)
next
  assume "py_plain rule"
  then show "py_repr rule = CHR 0x27 # rule @ [CHR 0x27]" by (rule py_repr_plain)
next
  show "apply_derivative_rule E expr var ''bad_rule'' =
     Inl (ValueError
       ''Unknown rule 'bad_rule'. Allowed values: auto, power_rule, constant_multiple_rule, product_rule, chain_rule, exponential_rule.'')"
    by (simp add: apply_derivative_rule_def map_of_rule_map unknown_rule_message_def
        rule_map_def py_repr_def py_repr_quote_def py_repr_char_def py_printable_def Let_def)
qed

theorem unknown_rule_error_witness:
  "''sum_rule'' \<notin> {''auto'', ''power_rule'', ''constant_multiple_rule'', ''product_rule'',
              ''chain_rule'', ''exponential_rule''} \<and> py_plain ''sum_rule'' \<and>
   apply_derivative_rule ref_engine (Text ''x^2'') (VarName ''x'') ''sum_rule'' =
     Inl (ValueError
       ''Unknown rule 'sum_rule'. Allowed values: auto, power_rule, constant_multiple_rule, product_rule, chain_rule, exponential_rule.'')"
proof -
  have a: "''sum_rule'' \<notin> {''auto'', ''power_rule'', ''constant_multiple_rule'', ''product_rule'',
              ''chain_rule'', ''exponential_rule''}" by simp
  have b: "py_plain ''sum_rule''" by (simp add: py_plain_def py_printable_def)
  from a b unknown_rule_error [of "''sum_rule''" ref_engine "Text ''x^2''" "VarName ''x''"]
  show ?thesis by simp
qed

lemma parsed_Text_rejected:
  "eng_parse E t (local_dict_of var) = None \<Longrightarrow>
   parsed E (Text t) var = Inl (ValueError (invalid_expression_message t))"
  by (simp add: parsed_Text)

lemma invalid_message_example:
  "invalid_expression_message ''x**'' =
     ''Invalid expression: 'x**'. Please provide a valid math expression in x.''"
  by (simp add: invalid_expression_message_def py_repr_def py_repr_quote_def py_repr_char_def
      py_printable_def Let_def)

text \<open>
  What the code does on a text that the engine's parser rejects: \<^verbatim>\<open>parse_expr\<close> and
  every matcher fail with the \<^verbatim>\<open>ValueError\<close> whose message starts with
  "Invalid expression: ", carries the \<^verbatim>\<open>repr\<close> of the text (the text between quotes when
  its characters are plain) and ends with the request for a valid expression; so for
  \<^verbatim>\<open>x**\<close> when the parser rejects it. The converse, that a matcher fails only on such a
  text, is not stated: it does not hold of the code on a text that the parser reads as an
  object other than an expression (see \<open>parse_expr\<close>).
\<close>

lemma parse_rejection_error:
  "(eng_parse E t (local_dict_of var) = None \<longrightarrow>
      parse_expr E (Text t) (Some (local_dict_of var)) =
        Inl (ValueError (invalid_expression_message t)) \<and>
      (\<forall>m \<in> snd ` set rule_map.
         m E (Text t) var = Inl (ValueError (invalid_expression_message t)))) \<and>
   invalid_expression_message t =
     ''Invalid expression: '' @ py_repr t @ ''. Please provide a valid math expression in x.'' \<and>
   (py_plain t \<longrightarrow> py_repr t = CHR 0x27 # t @ [CHR 0x27]) \<and>
   (eng_parse E ''x**'' (local_dict_of var) = None \<longrightarrow>
      parse_expr E (Text ''x**'') (Some (local_dict_of var)) =
        Inl (ValueError
          ''Invalid expression: 'x**'. Please provide a valid math expression in x.'') \<and>
      (\<forall>m \<in> snd ` set rule_map.
         m E (Text ''x**'') var =
           Inl (ValueError
             ''Invalid expression: 'x**'. Please provide a valid math expression in x.'')))"
proof (intro conjI ballI impI)
  assume "eng_parse E t (local_dict_of var) = None"
  then show "parse_expr E (Text t) (Some (local_dict_of var)) =
        Inl (ValueError (invalid_expression_message t))"
    by simp
next
  fix m assume "eng_parse E t (local_dict_of var) = None" and m: "m \<in> snd ` set rule_map"
  then have "parsed E (Text t) var = Inl (ValueError (invalid_expression_message t))"
    by (simp add: parsed_Text_rejected)
  from matcher_parse_error [OF m this]
  show "m E (Text t) var = Inl (ValueError (invalid_expression_message t))" .
next
  show "invalid_expression_message t =
     ''Invalid expression: '' @ py_repr t @ ''. Please provide a valid math expression in x.''"
    by (simp add: invalid_expression_message_def)
next
  assume "py_plain t"
  then show "py_repr t = CHR 0x27 # t @ [CHR 0x27]" by (rule py_repr_plain)
next
  assume "eng_parse E ''x**'' (local_dict_of var) = None"
  then show "parse_expr E (Text ''x**'') (Some (local_dict_of var)) =
        Inl (ValueError
          ''Invalid expression: 'x**'. Please provide a valid math expression in x.'')"
    by (simp add: invalid_message_example)
next
  fix m assume "eng_parse E ''x**'' (local_dict_of var) = None"
    and m: "m \<in> snd ` set rule_map"
  then have "parsed E (Text ''x**'') var = Inl (ValueError (invalid_expression_message ''x**''))"
    by (simp add: parsed_Text_rejected)
  from matcher_parse_error [OF m this]
  show "m E (Text ''x**'') var =
           Inl (ValueError
             ''Invalid expression: 'x**'. Please provide a valid math expression in x.'')"
    by (simp only: invalid_message_example)
qed

lemma parse_rejection_error_example:
  "eng_parse ref_engine ''x**'' (local_dict_of (VarName ''x'')) = None \<and>
   apply_power_rule_derivative ref_engine (Text ''x**'') (VarName ''x'') =
     Inl (ValueError ''Invalid expression: 'x**'. Please provide a valid math expression in x.'')"
proof -
  have a: "apply_power_rule_derivative \<in> snd ` set rule_map" by (simp add: set_rule_map)
  have b: "eng_parse ref_engine ''x**'' (local_dict_of (VarName ''x'')) = None"
    by (simp add: ref_parse_def known_texts_def)
  from a b parse_rejection_error [of ref_engine "''x**''" "VarName ''x''"]
  show ?thesis by blast
qed

lemma is_Pow_iff: "is_Pow e \<and> exponent e = x \<and> \<not> has (base e) y \<longleftrightarrow> (\<exists>a. e = Pow a x \<and> \<not> has a y)"
  by (cases e) auto

lemma exponential_rule_parsed:
  assumes "parsed E expr var = Inr e"
  shows "apply_exponential_derivative_rule E expr var =
     (if is_Pow e \<and> exponent e = get_symbol var \<and> \<not> has (base e) (get_symbol var)
      then Inr \<lparr>input_expr = e,
                output_expr = eng_simplify E (eng_mul E e (eng_log E (base e))),
                applied = True, rule_name = ''exponential_rule'',
                message = ''Applied exponential derivative rule.'',
                steps = [''Match pattern a^x with constant a.'', ''Derivative: a^x ln(a).'']\<rparr>
      else Inr (not_applicable e ''exponential_rule''
             (if \<not> is_Pow e then ''Not applicable: expression is not a^x.''
              else if exponent e \<noteq> get_symbol var then ''Not applicable: exponent is not x.''
              else ''Not applicable: base a is not constant.'')))"
  unfolding apply_exponential_derivative_rule_def Let_def parse_expr_parsed assms
  by simp

lemma power_rule_parsed:
  assumes "parsed E expr var = Inr f0"
  shows "apply_power_rule_derivative E expr var =
     (if eng_is_polynomial E (eng_expand E f0) (get_symbol var)
      then Inr \<lparr>input_expr = eng_expand E f0,
                output_expr = eng_simplify E (eng_diff E (eng_expand E f0) (get_symbol var)),
                applied = True, rule_name = ''power_rule'',
                message = ''Applied power rule term-by-term (polynomial).'',
                steps = [''Recognize polynomial in x.'', ''Differentiate each term.'']\<rparr>
      else Inr (not_applicable (eng_expand E f0) ''power_rule''
             ''Not applicable: expression is not a polynomial in x (power-rule mode).''))"
  unfolding apply_power_rule_derivative_def Let_def parse_expr_parsed assms
  by simp

lemma not_applicable_simps [simp]:
  "input_expr (not_applicable e n msg) = e"
  "output_expr (not_applicable e n msg) = e"
  "applied (not_applicable e n msg) = False"
  "rule_name (not_applicable e n msg) = n"
  "message (not_applicable e n msg) = msg"
  "steps (not_applicable e n msg) = []"
  by (simp_all add: not_applicable_def)

text \<open>
  C3. The exponential rule tests the parsed expression itself, with no rewriting before:
  on a parsed expression \<open>e\<close> it returns a result about \<open>e\<close> that is applied exactly
  when \<open>e\<close> is a power whose exponent is the variable and whose base does not contain the
  variable, and then the output is the simplified product of \<open>e\<close> and the logarithm of
  the base. In particular, where the parser reads \<^verbatim>\<open>2^(3*x)\<close> as the power of 2 with
  exponent \<open>3*x\<close>, the rule is not applied, for the reason that the exponent is not the
  variable.
\<close>

theorem exponential_rule_exact:
  "(\<forall>e. parsed E expr var = Inr e \<longrightarrow>
      (\<exists>r. apply_exponential_derivative_rule E expr var = Inr r \<and> input_expr r = e \<and>
           rule_name r = ''exponential_rule'' \<and>
           (applied r \<longleftrightarrow> (\<exists>a. e = Pow a (get_symbol var) \<and> \<not> has a (get_symbol var))) \<and>
           (applied r \<longrightarrow>
              output_expr r = eng_simplify E (eng_mul E e (eng_log E (base e)))))) \<and>
   (eng_parse E ''2^(3*x)'' [(''x'', Symbol ''x'')] =
      Some (Pow (Number 2) (Mul [Number 3, Symbol ''x''])) \<longrightarrow>
    apply_exponential_derivative_rule E (Text ''2^(3*x)'') (VarName ''x'') =
      Inr (not_applicable (Pow (Number 2) (Mul [Number 3, Symbol ''x'']))
             ''exponential_rule'' ''Not applicable: exponent is not x.''))"
proof (intro conjI allI impI)
  fix e assume e: "parsed E expr var = Inr e"
  let ?c = "is_Pow e \<and> exponent e = get_symbol var \<and> \<not> has (base e) (get_symbol var)"
  show "\<exists>r. apply_exponential_derivative_rule E expr var = Inr r \<and> input_expr r = e \<and>
           rule_name r = ''exponential_rule'' \<and>
           (applied r \<longleftrightarrow> (\<exists>a. e = Pow a (get_symbol var) \<and> \<not> has a (get_symbol var))) \<and>
           (applied r \<longrightarrow>
              output_expr r = eng_simplify E (eng_mul E e (eng_log E (base e))))"
  proof (cases ?c)
    case True
    then show ?thesis
      unfolding exponential_rule_parsed [OF e] is_Pow_iff [symmetric] by simp
  next
    case False
    then show ?thesis
      unfolding exponential_rule_parsed [OF e] is_Pow_iff [symmetric] by simp
  qed
next
  assume "eng_parse E ''2^(3*x)'' [(''x'', Symbol ''x'')] =
      Some (Pow (Number 2) (Mul [Number 3, Symbol ''x'']))"
  then have "parsed E (Text ''2^(3*x)'') (VarName ''x'') =
      Inr (Pow (Number 2) (Mul [Number 3, Symbol ''x'']))"
    by (simp add: parsed_Text)
  from exponential_rule_parsed [OF this]
  show "apply_exponential_derivative_rule E (Text ''2^(3*x)'') (VarName ''x'') =
      Inr (not_applicable (Pow (Number 2) (Mul [Number 3, Symbol ''x'']))
             ''exponential_rule'' ''Not applicable: exponent is not x.'')"
    by simp
qed

theorem exponential_rule_exact_witness:
  "parsed ref_engine (Text ''2^x'') (VarName ''x'') = Inr (Pow (Number 2) (Symbol ''x'')) \<and>
   (\<exists>a. Pow (Number 2) (Symbol ''x'') = Pow a (get_symbol (VarName ''x'')) \<and>
        \<not> has a (get_symbol (VarName ''x''))) \<and>
   (\<exists>r. apply_exponential_derivative_rule ref_engine (Text ''2^x'') (VarName ''x'') = Inr r \<and>
        applied r \<and>
        output_expr r = Mul [Pow (Number 2) (Symbol ''x''), Log (Number 2)]) \<and>
   eng_parse ref_engine ''2^(3*x)'' [(''x'', Symbol ''x'')] =
      Some (Pow (Number 2) (Mul [Number 3, Symbol ''x''])) \<and>
   apply_exponential_derivative_rule ref_engine (Text ''2^(3*x)'') (VarName ''x'') =
      Inr (not_applicable (Pow (Number 2) (Mul [Number 3, Symbol ''x'']))
             ''exponential_rule'' ''Not applicable: exponent is not x.'')"
proof -
  have a: "parsed ref_engine (Text ''2^x'') (VarName ''x'') = Inr (Pow (Number 2) (Symbol ''x''))"
    by (simp add: parsed_Text ref_parse_def known_texts_def)
  have b: "\<exists>a. Pow (Number 2) (Symbol ''x'') = Pow a (get_symbol (VarName ''x'')) \<and>
        \<not> has a (get_symbol (VarName ''x''))"
    by simp
  have c: "eng_parse ref_engine ''2^(3*x)'' [(''x'', Symbol ''x'')] =
      Some (Pow (Number 2) (Mul [Number 3, Symbol ''x'']))"
    by (simp add: ref_parse_def known_texts_def)
  have d: "eng_simplify ref_engine
             (eng_mul ref_engine (Pow (Number 2) (Symbol ''x''))
                (eng_log ref_engine (base (Pow (Number 2) (Symbol ''x''))))) =
           Mul [Pow (Number 2) (Symbol ''x''), Log (Number 2)]"
    by (simp add: ref_mul_def ref_log_def mk_mul_def)
  from a b c d exponential_rule_exact [of ref_engine "Text ''2^x''" "VarName ''x''"]
  show ?thesis by (simp del: has.simps get_symbol.simps) metis
qed

lemma denotes_sameD: "denotes_same a b \<Longrightarrow> eval \<phi> \<rho> a = eval \<phi> \<rho> b"
  by (simp add: denotes_same_def)

lemma derivative_ofD:
  "derivative_of d x e \<Longrightarrow>
   ((\<lambda>t. eval \<phi> (\<rho>(x := t)) e) has_real_derivative eval \<phi> \<rho> d) (at (\<rho> x))"
  by (simp add: derivative_of_def)

lemma cubic_derivative:
  "((\<lambda>t::real. t ^ 3 + t ^ 2 + 8) has_real_derivative 3 * v ^ 2 + 2 * v) (at v)"
  by (auto intro!: derivative_eq_intros)

text \<open>
  C5. On a parsed expression the power rule expands it and is applied exactly when the
  engine finds the expansion a polynomial in the variable; the output is then the
  simplified derivative of the expansion. In particular, on \<^verbatim>\<open>x^3 + x^2 + 8\<close>, with an
  engine that reads the text as a tree denoting this polynomial, finds it a polynomial,
  differentiates it correctly and keeps the value in expanding and simplifying, the rule is
  applied and the output denotes \<open>3x^2 + 2x\<close>; and on \<^verbatim>\<open>sin(x) + x^2\<close>, which the
  engine does not find a polynomial, the rule is not applied and the rule name is
  \<^verbatim>\<open>power_rule\<close>.
\<close>

theorem power_rule_exact:
  "(\<forall>f0. parsed E expr var = Inr f0 \<longrightarrow>
      (\<exists>r. apply_power_rule_derivative E expr var = Inr r \<and>
           input_expr r = eng_expand E f0 \<and> rule_name r = ''power_rule'' \<and>
           (applied r \<longleftrightarrow> eng_is_polynomial E (eng_expand E f0) (get_symbol var)) \<and>
           (applied r \<longrightarrow>
              output_expr r =
                eng_simplify E (eng_diff E (eng_expand E f0) (get_symbol var))))) \<and>
   (\<forall>P. eng_parse E ''x^3 + x^2 + 8'' [(''x'', Symbol ''x'')] = Some P \<and>
        (\<forall>\<phi> \<rho>. eval \<phi> \<rho> P = \<rho> ''x'' ^ 3 + \<rho> ''x'' ^ 2 + 8) \<and>
        denotes_same (eng_expand E P) P \<and>
        eng_is_polynomial E (eng_expand E P) (Symbol ''x'') \<and>
        derivative_of (eng_diff E (eng_expand E P) (Symbol ''x'')) ''x'' (eng_expand E P) \<and>
        denotes_same (eng_simplify E (eng_diff E (eng_expand E P) (Symbol ''x'')))
          (eng_diff E (eng_expand E P) (Symbol ''x'')) \<longrightarrow>
      (\<exists>r. apply_power_rule_derivative E (Text ''x^3 + x^2 + 8'') (VarName ''x'') = Inr r \<and>
           applied r \<and> rule_name r = ''power_rule'' \<and>
           (\<forall>\<phi> \<rho>. eval \<phi> \<rho> (output_expr r) = 3 * \<rho> ''x'' ^ 2 + 2 * \<rho> ''x''))) \<and>
   (\<forall>P. eng_parse E ''sin(x) + x^2'' [(''x'', Symbol ''x'')] = Some P \<and>
        \<not> eng_is_polynomial E (eng_expand E P) (Symbol ''x'') \<longrightarrow>
      (\<exists>r. apply_power_rule_derivative E (Text ''sin(x) + x^2'') (VarName ''x'') = Inr r \<and>
           \<not> applied r \<and> rule_name r = ''power_rule'' \<and> output_expr r = input_expr r))"
proof (intro conjI allI impI)
  fix f0 assume "parsed E expr var = Inr f0"
  from power_rule_parsed [OF this]
  show "\<exists>r. apply_power_rule_derivative E expr var = Inr r \<and>
           input_expr r = eng_expand E f0 \<and> rule_name r = ''power_rule'' \<and>
           (applied r \<longleftrightarrow> eng_is_polynomial E (eng_expand E f0) (get_symbol var)) \<and>
           (applied r \<longrightarrow>
              output_expr r =
                eng_simplify E (eng_diff E (eng_expand E f0) (get_symbol var)))"
    by simp
next
  fix P
  let ?x = "Symbol ''x''"
  let ?D = "eng_diff E (eng_expand E P) ?x"
  assume h: "eng_parse E ''x^3 + x^2 + 8'' [(''x'', Symbol ''x'')] = Some P \<and>
        (\<forall>\<phi> \<rho>. eval \<phi> \<rho> P = \<rho> ''x'' ^ 3 + \<rho> ''x'' ^ 2 + 8) \<and>
        denotes_same (eng_expand E P) P \<and>
        eng_is_polynomial E (eng_expand E P) (Symbol ''x'') \<and>
        derivative_of ?D ''x'' (eng_expand E P) \<and>
        denotes_same (eng_simplify E ?D) ?D"
  then have p: "parsed E (Text ''x^3 + x^2 + 8'') (VarName ''x'') = Inr P"
    by (simp add: parsed_Text)
  from h have ex: "eval \<phi> \<rho> (eng_expand E P) = \<rho> ''x'' ^ 3 + \<rho> ''x'' ^ 2 + 8" for \<phi> \<rho>
    using denotes_sameD [of "eng_expand E P" P \<phi> \<rho>] by simp
  from h have si: "eval \<phi> \<rho> (eng_simplify E ?D) = eval \<phi> \<rho> ?D" for \<phi> \<rho>
    using denotes_sameD [of "eng_simplify E ?D" ?D \<phi> \<rho>] by simp
  have val: "eval \<phi> \<rho> (eng_simplify E ?D) = 3 * \<rho> ''x'' ^ 2 + 2 * \<rho> ''x''" for \<phi> \<rho>
  proof -
    from derivative_ofD [of ?D "''x''" "eng_expand E P" \<phi> \<rho>] h
    have "((\<lambda>t. t ^ 3 + t ^ 2 + 8) has_real_derivative eval \<phi> \<rho> ?D) (at (\<rho> ''x''))"
      by (simp add: ex)
    from DERIV_unique [OF this cubic_derivative]
    have "eval \<phi> \<rho> ?D = 3 * \<rho> ''x'' ^ 2 + 2 * \<rho> ''x''" .
    then show ?thesis by (simp add: si)
  qed
  from h val show "\<exists>r. apply_power_rule_derivative E (Text ''x^3 + x^2 + 8'') (VarName ''x'') = Inr r \<and>
           applied r \<and> rule_name r = ''power_rule'' \<and>
           (\<forall>\<phi> \<rho>. eval \<phi> \<rho> (output_expr r) = 3 * \<rho> ''x'' ^ 2 + 2 * \<rho> ''x'')"
    unfolding power_rule_parsed [OF p] by simp
next
  fix P
  assume h: "eng_parse E ''sin(x) + x^2'' [(''x'', Symbol ''x'')] = Some P \<and>
        \<not> eng_is_polynomial E (eng_expand E P) (Symbol ''x'')"
  then have p: "parsed E (Text ''sin(x) + x^2'') (VarName ''x'') = Inr P"
    by (simp add: parsed_Text)
  from h show "\<exists>r. apply_power_rule_derivative E (Text ''sin(x) + x^2'') (VarName ''x'') = Inr r \<and>
           \<not> applied r \<and> rule_name r = ''power_rule'' \<and> output_expr r = input_expr r"
    unfolding power_rule_parsed [OF p] by simp
qed

lemma ref_cubic_diff:
  "ref_diff (Add [Pow (Symbol ''x'') (Number 3), Pow (Symbol ''x'') (Number 2), Number 8])
     (Symbol ''x'') =
   Add [Mul [Number 3, Pow (Symbol ''x'') (Number 2)], Mul [Number 2, Symbol ''x'']]"
  by code_simp

theorem power_rule_exact_witness:
  "eng_parse ref_engine ''x^3 + x^2 + 8'' [(''x'', Symbol ''x'')] =
     Some (Add [Pow (Symbol ''x'') (Number 3), Pow (Symbol ''x'') (Number 2), Number 8]) \<and>
   eng_is_polynomial ref_engine
     (eng_expand ref_engine
        (Add [Pow (Symbol ''x'') (Number 3), Pow (Symbol ''x'') (Number 2), Number 8]))
     (Symbol ''x'') \<and>
   derivative_of
     (eng_diff ref_engine
        (eng_expand ref_engine
           (Add [Pow (Symbol ''x'') (Number 3), Pow (Symbol ''x'') (Number 2), Number 8]))
        (Symbol ''x''))
     ''x''
     (eng_expand ref_engine
        (Add [Pow (Symbol ''x'') (Number 3), Pow (Symbol ''x'') (Number 2), Number 8])) \<and>
   (\<exists>r. apply_power_rule_derivative ref_engine (Text ''x^3 + x^2 + 8'') (VarName ''x'') = Inr r \<and>
        applied r \<and> rule_name r = ''power_rule'' \<and>
        (\<forall>\<phi> \<rho>. eval \<phi> \<rho> (output_expr r) = 3 * \<rho> ''x'' ^ 2 + 2 * \<rho> ''x'')) \<and>
   eng_parse ref_engine ''sin(x) + x^2'' [(''x'', Symbol ''x'')] =
     Some (Add [Sin (Symbol ''x''), Pow (Symbol ''x'') (Number 2)]) \<and>
   \<not> eng_is_polynomial ref_engine
        (eng_expand ref_engine (Add [Sin (Symbol ''x''), Pow (Symbol ''x'') (Number 2)]))
        (Symbol ''x'') \<and>
   (\<exists>r. apply_power_rule_derivative ref_engine (Text ''sin(x) + x^2'') (VarName ''x'') = Inr r \<and>
        \<not> applied r \<and> rule_name r = ''power_rule'' \<and> output_expr r = input_expr r)"
proof -
  let ?P = "Add [Pow (Symbol ''x'') (Number 3), Pow (Symbol ''x'') (Number 2), Number 8]"
  let ?Q = "Add [Sin (Symbol ''x''), Pow (Symbol ''x'') (Number 2)]"
  have a: "eng_parse ref_engine ''x^3 + x^2 + 8'' [(''x'', Symbol ''x'')] = Some ?P"
    by (simp add: ref_parse_def known_texts_def)
  have b: "\<forall>\<phi> \<rho>. eval \<phi> \<rho> ?P = \<rho> ''x'' ^ 3 + \<rho> ''x'' ^ 2 + 8"
    by simp
  have c: "denotes_same (eng_expand ref_engine ?P) ?P"
    by (simp add: denotes_same_def)
  have d: "eng_is_polynomial ref_engine (eng_expand ref_engine ?P) (Symbol ''x'')"
    by (simp add: ref_is_polynomial_def)
  have e: "derivative_of (eng_diff ref_engine (eng_expand ref_engine ?P) (Symbol ''x'')) ''x''
             (eng_expand ref_engine ?P)"
    unfolding derivative_of_def
    by (simp add: ref_cubic_diff) (auto intro!: derivative_eq_intros)
  have f: "denotes_same
             (eng_simplify ref_engine (eng_diff ref_engine (eng_expand ref_engine ?P) (Symbol ''x'')))
             (eng_diff ref_engine (eng_expand ref_engine ?P) (Symbol ''x''))"
    by (simp add: denotes_same_def)
  have g: "eng_parse ref_engine ''sin(x) + x^2'' [(''x'', Symbol ''x'')] = Some ?Q"
    by (simp add: ref_parse_def known_texts_def)
  have h: "\<not> eng_is_polynomial ref_engine (eng_expand ref_engine ?Q) (Symbol ''x'')"
    by (simp add: ref_is_polynomial_def)
  from a b c d e f g h power_rule_exact [of ref_engine "Text ''x^2''" "VarName ''x''"]
  show ?thesis by blast
qed

lemma product_rule_parsed:
  assumes "parsed E expr var = Inr e0"
  shows "apply_product_rule E expr var =
     (let x = get_symbol var;
          e = eng_simplify E e0;
          c = fst (eng_as_independent E e x);
          nonconst = filter (\<lambda>f. has f x) (mul_factors (snd (eng_as_independent E e x)))
      in if is_Mul e \<and> length nonconst = 2
         then Inr \<lparr>input_expr = e,
                   output_expr =
                     eng_simplify E
                       (eng_mul E c
                          (eng_add E (eng_mul E (nonconst ! 0) (eng_diff E (nonconst ! 1) x))
                                     (eng_mul E (eng_diff E (nonconst ! 0) x) (nonconst ! 1)))),
                   applied = True, rule_name = ''product_rule'',
                   message = ''Applied product rule.'',
                   steps = [''Identify f(x) and g(x).'', ''Compute f g' + f' g.'']\<rparr>
         else Inr (not_applicable e ''product_rule''
                (if \<not> is_Mul e then ''Not applicable: expression is not a product.''
                 else ''Not applicable: product rule requires exactly two x-dependent factors (simple mode).'')))"
  unfolding apply_product_rule_def Let_def parse_expr_parsed assms
  by (simp add: case_prod_beta)

lemma length_two: "length xs = 2 \<longleftrightarrow> (\<exists>a b. xs = [a, b])"
  by (cases xs; cases "tl xs") auto

text \<open>
  C6. On a parsed expression the product rule simplifies it and is applied exactly when
  the simplified expression is a product and, of the factors of the part that the engine
  does not split off as independent of the variable, exactly two contain the variable;
  with \<open>c\<close> the part split off and \<open>f1\<close>, \<open>f2\<close> these two factors, the output is the
  simplified \<open>c * (f1 * f2' + f1' * f2)\<close>. In particular, where \<^verbatim>\<open>(x+1)*(x+2)*(x+3)\<close>
  simplifies to a product whose dependent part has three factors with the variable, the
  rule is not applied.
\<close>

theorem product_rule_exact:
  "(\<forall>e0 e c rest nonconst.
      parsed E expr var = Inr e0 \<and> e = eng_simplify E e0 \<and>
      eng_as_independent E e (get_symbol var) = (c, rest) \<and>
      nonconst = filter (\<lambda>f. has f (get_symbol var)) (mul_factors rest) \<longrightarrow>
      (\<exists>r. apply_product_rule E expr var = Inr r \<and> input_expr r = e \<and>
           rule_name r = ''product_rule'' \<and>
           (applied r \<longleftrightarrow> is_Mul e \<and> length nonconst = 2) \<and>
           (applied r \<longrightarrow>
              (\<exists>f1 f2. nonconst = [f1, f2] \<and>
                 output_expr r =
                   eng_simplify E
                     (eng_mul E c
                        (eng_add E (eng_mul E f1 (eng_diff E f2 (get_symbol var)))
                                   (eng_mul E (eng_diff E f1 (get_symbol var)) f2))))))) \<and>
   (\<forall>P fs c rest.
      eng_parse E ''(x+1)*(x+2)*(x+3)'' [(''x'', Symbol ''x'')] = Some P \<and>
      eng_simplify E P = Mul fs \<and>
      eng_as_independent E (Mul fs) (Symbol ''x'') = (c, rest) \<and>
      length (filter (\<lambda>f. has f (Symbol ''x'')) (mul_factors rest)) = 3 \<longrightarrow>
      apply_product_rule E (Text ''(x+1)*(x+2)*(x+3)'') (VarName ''x'') =
        Inr (not_applicable (Mul fs) ''product_rule''
          ''Not applicable: product rule requires exactly two x-dependent factors (simple mode).''))"
proof (intro conjI allI impI)
  fix e0 e c rest nonconst
  assume h: "parsed E expr var = Inr e0 \<and> e = eng_simplify E e0 \<and>
      eng_as_independent E e (get_symbol var) = (c, rest) \<and>
      nonconst = filter (\<lambda>f. has f (get_symbol var)) (mul_factors rest)"
  then have p: "parsed E expr var = Inr e0" by simp
  from h have e: "e = eng_simplify E e0" by simp
  from h have ai: "eng_as_independent E (eng_simplify E e0) (get_symbol var) = (c, rest)"
    by auto
  from h have nc: "filter (\<lambda>f. has f (get_symbol var)) (mul_factors rest) = nonconst"
    by simp
  show "\<exists>r. apply_product_rule E expr var = Inr r \<and> input_expr r = e \<and>
           rule_name r = ''product_rule'' \<and>
           (applied r \<longleftrightarrow> is_Mul e \<and> length nonconst = 2) \<and>
           (applied r \<longrightarrow>
              (\<exists>f1 f2. nonconst = [f1, f2] \<and>
                 output_expr r =
                   eng_simplify E
                     (eng_mul E c
                        (eng_add E (eng_mul E f1 (eng_diff E f2 (get_symbol var)))
                                   (eng_mul E (eng_diff E f1 (get_symbol var)) f2)))))"
  proof (cases "is_Mul e \<and> length nonconst = 2")
    case True
    then obtain f1 f2 where "nonconst = [f1, f2]" by (auto simp: length_two)
    with True show ?thesis
      unfolding product_rule_parsed [OF p] Let_def ai fst_conv snd_conv nc e by simp
  next
    case False
    then show ?thesis
      unfolding product_rule_parsed [OF p] Let_def ai fst_conv snd_conv nc e by auto
  qed
next
  fix P fs c rest
  assume h: "eng_parse E ''(x+1)*(x+2)*(x+3)'' [(''x'', Symbol ''x'')] = Some P \<and>
      eng_simplify E P = Mul fs \<and>
      eng_as_independent E (Mul fs) (Symbol ''x'') = (c, rest) \<and>
      length (filter (\<lambda>f. has f (Symbol ''x'')) (mul_factors rest)) = 3"
  then have p: "parsed E (Text ''(x+1)*(x+2)*(x+3)'') (VarName ''x'') = Inr P"
    by (simp add: parsed_Text)
  from h show "apply_product_rule E (Text ''(x+1)*(x+2)*(x+3)'') (VarName ''x'') =
        Inr (not_applicable (Mul fs) ''product_rule''
          ''Not applicable: product rule requires exactly two x-dependent factors (simple mode).'')"
    unfolding product_rule_parsed [OF p] Let_def by simp
qed

theorem product_rule_exact_witness:
  "parsed ref_engine (Text ''(x+1)*(x+2)'') (VarName ''x'') =
     Inr (Mul [Add [Symbol ''x'', Number 1], Add [Symbol ''x'', Number 2]]) \<and>
   eng_as_independent ref_engine
     (Mul [Add [Symbol ''x'', Number 1], Add [Symbol ''x'', Number 2]]) (Symbol ''x'') =
     (Number 1, Mul [Add [Symbol ''x'', Number 1], Add [Symbol ''x'', Number 2]]) \<and>
   (\<exists>r. apply_product_rule ref_engine (Text ''(x+1)*(x+2)'') (VarName ''x'') = Inr r \<and>
        applied r \<and>
        output_expr r = Add [Symbol ''x'', Number 1, Symbol ''x'', Number 2]) \<and>
   eng_parse ref_engine ''(x+1)*(x+2)*(x+3)'' [(''x'', Symbol ''x'')] =
     Some (Mul [Add [Symbol ''x'', Number 1], Add [Symbol ''x'', Number 2],
                Add [Symbol ''x'', Number 3]]) \<and>
   length (filter (\<lambda>f. has f (Symbol ''x''))
     (mul_factors (Mul [Add [Symbol ''x'', Number 1], Add [Symbol ''x'', Number 2],
                Add [Symbol ''x'', Number 3]]))) = 3 \<and>
   apply_product_rule ref_engine (Text ''(x+1)*(x+2)*(x+3)'') (VarName ''x'') =
     Inr (not_applicable
            (Mul [Add [Symbol ''x'', Number 1], Add [Symbol ''x'', Number 2],
                  Add [Symbol ''x'', Number 3]])
            ''product_rule''
            ''Not applicable: product rule requires exactly two x-dependent factors (simple mode).'')"
proof -
  let ?A = "Add [Symbol ''x'', Number 1]"
  let ?B = "Add [Symbol ''x'', Number 2]"
  let ?C = "Add [Symbol ''x'', Number 3]"
  let ?x = "Symbol ''x''"
  have a: "parsed ref_engine (Text ''(x+1)*(x+2)'') (VarName ''x'') = Inr (Mul [?A, ?B])"
    by (simp add: parsed_Text ref_parse_def known_texts_def)
  have b: "eng_as_independent ref_engine (Mul [?A, ?B]) ?x = (Number 1, Mul [?A, ?B])"
    by (simp add: ref_as_independent_def mk_mul_def)
  have b': "eng_as_independent ref_engine (eng_simplify ref_engine (Mul [?A, ?B]))
              (get_symbol (VarName ''x'')) = (Number 1, Mul [?A, ?B])"
    using b by simp
  have c: "[?A, ?B] = filter (\<lambda>f. has f (get_symbol (VarName ''x''))) (mul_factors (Mul [?A, ?B]))"
    by simp
  have d: "eng_simplify ref_engine
             (eng_mul ref_engine (Number 1)
                (eng_add ref_engine (eng_mul ref_engine ?A (eng_diff ref_engine ?B ?x))
                                    (eng_mul ref_engine (eng_diff ref_engine ?A ?x) ?B))) =
           Add [Symbol ''x'', Number 1, Symbol ''x'', Number 2]"
    by code_simp
  have e: "eng_parse ref_engine ''(x+1)*(x+2)*(x+3)'' [(''x'', Symbol ''x'')] = Some (Mul [?A, ?B, ?C])"
    by (simp add: ref_parse_def known_texts_def)
  have f: "eng_simplify ref_engine (Mul [?A, ?B, ?C]) = Mul [?A, ?B, ?C]" by simp
  have g: "eng_as_independent ref_engine (Mul [?A, ?B, ?C]) ?x = (Number 1, Mul [?A, ?B, ?C])"
    by (simp add: ref_as_independent_def mk_mul_def)
  have h: "length (filter (\<lambda>f. has f ?x) (mul_factors (Mul [?A, ?B, ?C]))) = 3"
    by simp
  note T = product_rule_exact [of ref_engine "Text ''(x+1)*(x+2)''" "VarName ''x''"]
  from T a b' c obtain r where
    r: "apply_product_rule ref_engine (Text ''(x+1)*(x+2)'') (VarName ''x'') = Inr r"
       "applied r \<longleftrightarrow> is_Mul (Mul [?A, ?B]) \<and> length [?A, ?B] = 2"
       "applied r \<longrightarrow> (\<exists>f1 f2. [?A, ?B] = [f1, f2] \<and>
           output_expr r = eng_simplify ref_engine
             (eng_mul ref_engine (Number 1)
                (eng_add ref_engine (eng_mul ref_engine f1 (eng_diff ref_engine f2 (get_symbol (VarName ''x''))))
                                    (eng_mul ref_engine (eng_diff ref_engine f1 (get_symbol (VarName ''x''))) f2))))"
    by (metis ref_engine_simps(3))
  from r(2) have ap: "applied r" by simp
  with r(3) d have "output_expr r = Add [Symbol ''x'', Number 1, Symbol ''x'', Number 2]"
    by auto
  moreover from T e f g h
  have "apply_product_rule ref_engine (Text ''(x+1)*(x+2)*(x+3)'') (VarName ''x'') =
     Inr (not_applicable (Mul [?A, ?B, ?C]) ''product_rule''
            ''Not applicable: product rule requires exactly two x-dependent factors (simple mode).'')"
    by blast
  ultimately show ?thesis using a b e h r(1) ap by blast
qed

lemma chain_rule_parsed:
  assumes "parsed E expr var = Inr e0"
  shows "\<exists>r. apply_chain_rule E expr var = Inr r \<and> input_expr r = eng_simplify E e0 \<and>
           rule_name r = ''chain_rule'' \<and>
           (applied r \<longleftrightarrow> chain_pattern (eng_simplify E e0) (get_symbol var)) \<and>
           (applied r \<longrightarrow>
              output_expr r = chain_closed_form E (eng_simplify E e0) (get_symbol var))"
  unfolding apply_chain_rule_def Let_def parse_expr_parsed assms
  by (cases "eng_simplify E e0") (simp_all add: chain_pattern_def chain_closed_form_def)

lemma double_derivative: "((\<lambda>t::real. 2 * t) has_real_derivative 2) (at v)"
  by (auto intro!: derivative_eq_intros)

text \<open>
  C4. On a parsed expression the chain rule simplifies it and is applied exactly when the
  simplified expression has one of the five outer forms: a power of an inner function
  with an exponent free of the variable and other than 1, or the exponential, logarithm,
  sine or cosine of an inner function, the inner function containing the variable. The
  output is then the closed form of that pattern, simplified: \<open>n * g^(n-1) * g'\<close>,
  \<open>exp(g) * g'\<close>, \<open>g' / g\<close>, \<open>cos(g) * g'\<close>, \<open>- sin(g) * g'\<close>. In particular, on
  \<^verbatim>\<open>sin(2*x)\<close>, with an engine that simplifies the parsed text to the sine of a tree
  denoting \<open>2x\<close>, differentiates that tree correctly and keeps the value in building the
  cosine, the product and in simplifying, the rule is applied and the output denotes
  \<open>2 cos(2x)\<close>.
\<close>

theorem chain_rule_exact:
  "(\<forall>e0. parsed E expr var = Inr e0 \<longrightarrow>
      (\<exists>r. apply_chain_rule E expr var = Inr r \<and> input_expr r = eng_simplify E e0 \<and>
           rule_name r = ''chain_rule'' \<and>
           (applied r \<longleftrightarrow> chain_pattern (eng_simplify E e0) (get_symbol var)) \<and>
           (applied r \<longrightarrow>
              output_expr r = chain_closed_form E (eng_simplify E e0) (get_symbol var)))) \<and>
   (\<forall>e x. chain_pattern e x \<longleftrightarrow>
      (\<exists>g n. e = Pow g n \<and> has g x \<and> \<not> has n x \<and> n \<noteq> Number 1) \<or>
      (\<exists>g. has g x \<and> (e = Exp g \<or> e = Log g \<or> e = Sin g \<or> e = Cos g))) \<and>
   (\<forall>g n x.
      chain_closed_form E (Pow g n) x =
        eng_simplify E
          (eng_mul E (eng_mul E n (eng_pow E g (eng_sub E n (Number 1)))) (eng_diff E g x)) \<and>
      chain_closed_form E (Exp g) x = eng_simplify E (eng_mul E (eng_exp E g) (eng_diff E g x)) \<and>
      chain_closed_form E (Log g) x = eng_simplify E (eng_div E (eng_diff E g x) g) \<and>
      chain_closed_form E (Sin g) x = eng_simplify E (eng_mul E (eng_cos E g) (eng_diff E g x)) \<and>
      chain_closed_form E (Cos g) x =
        eng_simplify E (eng_mul E (eng_neg E (eng_sin E g)) (eng_diff E g x))) \<and>
   (\<forall>P g.
      eng_parse E ''sin(2*x)'' [(''x'', Symbol ''x'')] = Some P \<and>
      eng_simplify E P = Sin g \<and> has g (Symbol ''x'') \<and>
      (\<forall>\<phi> \<rho>. eval \<phi> \<rho> g = 2 * \<rho> ''x'') \<and>
      derivative_of (eng_diff E g (Symbol ''x'')) ''x'' g \<and>
      denotes_same (eng_cos E g) (Cos g) \<and>
      denotes_same (eng_mul E (eng_cos E g) (eng_diff E g (Symbol ''x'')))
        (Mul [eng_cos E g, eng_diff E g (Symbol ''x'')]) \<and>
      denotes_same (eng_simplify E (eng_mul E (eng_cos E g) (eng_diff E g (Symbol ''x''))))
        (eng_mul E (eng_cos E g) (eng_diff E g (Symbol ''x''))) \<longrightarrow>
      (\<exists>r. apply_chain_rule E (Text ''sin(2*x)'') (VarName ''x'') = Inr r \<and> applied r \<and>
           rule_name r = ''chain_rule'' \<and>
           (\<forall>\<phi> \<rho>. eval \<phi> \<rho> (output_expr r) = 2 * cos (2 * \<rho> ''x''))))"
proof (intro conjI allI impI)
  fix e0 assume "parsed E expr var = Inr e0"
  then show "\<exists>r. apply_chain_rule E expr var = Inr r \<and> input_expr r = eng_simplify E e0 \<and>
           rule_name r = ''chain_rule'' \<and>
           (applied r \<longleftrightarrow> chain_pattern (eng_simplify E e0) (get_symbol var)) \<and>
           (applied r \<longrightarrow>
              output_expr r = chain_closed_form E (eng_simplify E e0) (get_symbol var))"
    by (rule chain_rule_parsed)
next
  fix e x
  show "chain_pattern e x \<longleftrightarrow>
      (\<exists>g n. e = Pow g n \<and> has g x \<and> \<not> has n x \<and> n \<noteq> Number 1) \<or>
      (\<exists>g. has g x \<and> (e = Exp g \<or> e = Log g \<or> e = Sin g \<or> e = Cos g))"
    by (cases e) (auto simp: chain_pattern_def)
next
  fix P g
  let ?x = "Symbol ''x''"
  let ?D = "eng_diff E g ?x"
  let ?M = "eng_mul E (eng_cos E g) ?D"
  assume h: "eng_parse E ''sin(2*x)'' [(''x'', Symbol ''x'')] = Some P \<and>
      eng_simplify E P = Sin g \<and> has g ?x \<and>
      (\<forall>\<phi> \<rho>. eval \<phi> \<rho> g = 2 * \<rho> ''x'') \<and>
      derivative_of ?D ''x'' g \<and>
      denotes_same (eng_cos E g) (Cos g) \<and>
      denotes_same ?M (Mul [eng_cos E g, ?D]) \<and>
      denotes_same (eng_simplify E ?M) ?M"
  then have p: "parsed E (Text ''sin(2*x)'') (VarName ''x'') = Inr P"
    by (simp add: parsed_Text)
  from h have g: "eval \<phi> \<rho> g = 2 * \<rho> ''x''" for \<phi> \<rho> by simp
  have d: "eval \<phi> \<rho> ?D = 2" for \<phi> \<rho>
  proof -
    from h derivative_ofD [of ?D "''x''" g \<phi> \<rho>]
    have "((\<lambda>t. 2 * t) has_real_derivative eval \<phi> \<rho> ?D) (at (\<rho> ''x''))"
      by (simp add: g)
    from DERIV_unique [OF this double_derivative] show ?thesis .
  qed
  have val: "eval \<phi> \<rho> (eng_simplify E ?M) = 2 * cos (2 * \<rho> ''x'')" for \<phi> \<rho>
  proof -
    from h have "eval \<phi> \<rho> (eng_simplify E ?M) = eval \<phi> \<rho> ?M"
      using denotes_sameD [of "eng_simplify E ?M" ?M \<phi> \<rho>] by simp
    also from h have "\<dots> = eval \<phi> \<rho> (Mul [eng_cos E g, ?D])"
      using denotes_sameD [of ?M "Mul [eng_cos E g, ?D]" \<phi> \<rho>] by simp
    also from h have "\<dots> = cos (2 * \<rho> ''x'') * 2"
      using denotes_sameD [of "eng_cos E g" "Cos g" \<phi> \<rho>] by (simp add: d g)
    finally show ?thesis by simp
  qed
  from chain_rule_parsed [OF p] h obtain r where
    r: "apply_chain_rule E (Text ''sin(2*x)'') (VarName ''x'') = Inr r"
       "rule_name r = ''chain_rule''"
       "applied r \<longleftrightarrow> chain_pattern (Sin g) ?x"
       "applied r \<longrightarrow> output_expr r = chain_closed_form E (Sin g) ?x"
    by auto
  from r(3) h have ap: "applied r" by (simp add: chain_pattern_def)
  with r(4) have "output_expr r = eng_simplify E ?M" by (simp add: chain_closed_form_def)
  with val r ap
  show "\<exists>r. apply_chain_rule E (Text ''sin(2*x)'') (VarName ''x'') = Inr r \<and> applied r \<and>
           rule_name r = ''chain_rule'' \<and>
           (\<forall>\<phi> \<rho>. eval \<phi> \<rho> (output_expr r) = 2 * cos (2 * \<rho> ''x''))"
    by simp
qed (simp_all add: chain_closed_form_def)

theorem chain_rule_exact_witness:
  "eng_parse ref_engine ''sin(2*x)'' [(''x'', Symbol ''x'')] =
     Some (Sin (Mul [Number 2, Symbol ''x''])) \<and>
   eng_simplify ref_engine (Sin (Mul [Number 2, Symbol ''x''])) =
     Sin (Mul [Number 2, Symbol ''x'']) \<and>
   has (Mul [Number 2, Symbol ''x'']) (Symbol ''x'') \<and>
   derivative_of (eng_diff ref_engine (Mul [Number 2, Symbol ''x'']) (Symbol ''x'')) ''x''
     (Mul [Number 2, Symbol ''x'']) \<and>
   chain_pattern (Sin (Mul [Number 2, Symbol ''x''])) (get_symbol (VarName ''x'')) \<and>
   (\<exists>r. apply_chain_rule ref_engine (Text ''sin(2*x)'') (VarName ''x'') = Inr r \<and> applied r \<and>
        rule_name r = ''chain_rule'' \<and>
        (\<forall>\<phi> \<rho>. eval \<phi> \<rho> (output_expr r) = 2 * cos (2 * \<rho> ''x'')))"
proof -
  let ?g = "Mul [Number 2, Symbol ''x'']"
  let ?x = "Symbol ''x''"
  have dg: "ref_diff ?g ?x = Number 2" by code_simp
  have rc: "ref_cos ?g = Cos ?g" by (simp add: ref_cos_def)
  have mc: "ref_mul (Cos ?g) (Number 2) = Mul [Number 2, Cos ?g]" by code_simp
  have a: "eng_parse ref_engine ''sin(2*x)'' [(''x'', Symbol ''x'')] = Some (Sin ?g)"
    by (simp add: ref_parse_def known_texts_def)
  have b: "eng_simplify ref_engine (Sin ?g) = Sin ?g" by simp
  have c: "has ?g ?x" by simp
  have d: "\<forall>\<phi> \<rho>. eval \<phi> \<rho> ?g = 2 * \<rho> ''x''" by simp
  have e: "derivative_of (eng_diff ref_engine ?g ?x) ''x'' ?g"
    unfolding derivative_of_def by (auto simp: dg intro!: derivative_eq_intros)
  have f: "denotes_same (eng_cos ref_engine ?g) (Cos ?g)"
    by (simp add: denotes_same_def rc)
  have g: "denotes_same (eng_mul ref_engine (eng_cos ref_engine ?g) (eng_diff ref_engine ?g ?x))
             (Mul [eng_cos ref_engine ?g, eng_diff ref_engine ?g ?x])"
    by (simp add: denotes_same_def dg rc mc)
  have h: "denotes_same
             (eng_simplify ref_engine
                (eng_mul ref_engine (eng_cos ref_engine ?g) (eng_diff ref_engine ?g ?x)))
             (eng_mul ref_engine (eng_cos ref_engine ?g) (eng_diff ref_engine ?g ?x))"
    by (simp add: denotes_same_def)
  have i: "chain_pattern (Sin ?g) (get_symbol (VarName ''x''))"
    by (simp add: chain_pattern_def)
  from a b c d e f g h chain_rule_exact [of ref_engine "Text ''sin(2*x)''" "VarName ''x''"]
  have "\<exists>r. apply_chain_rule ref_engine (Text ''sin(2*x)'') (VarName ''x'') = Inr r \<and> applied r \<and>
        rule_name r = ''chain_rule'' \<and>
        (\<forall>\<phi> \<rho>. eval \<phi> \<rho> (output_expr r) = 2 * cos (2 * \<rho> ''x''))"
    by blast
  with a b c e i show ?thesis by blast
qed

lemma no_matcher_applies:
  assumes "\<forall>m \<in> snd ` set rule_map. \<exists>r. m E expr var = Inr r \<and> \<not> applied r"
  shows "\<exists>r. apply_derivative_rule E expr var ''auto'' = Inr (Some r) \<and> \<not> applied r"
proof -
  from assms have all:
    "(\<exists>r. apply_power_rule_derivative E expr var = Inr r \<and> \<not> applied r) \<and>
     (\<exists>r. apply_constant_multiple_derivative E expr var = Inr r \<and> \<not> applied r) \<and>
     (\<exists>r. apply_product_rule E expr var = Inr r \<and> \<not> applied r) \<and>
     (\<exists>r. apply_chain_rule E expr var = Inr r \<and> \<not> applied r) \<and>
     (\<exists>r. apply_exponential_derivative_rule E expr var = Inr r \<and> \<not> applied r)"
    by (simp add: set_rule_map)
  then obtain r1 r2 r3 r4 r5 where
    "apply_power_rule_derivative E expr var = Inr r1" "\<not> applied r1"
    "apply_constant_multiple_derivative E expr var = Inr r2" "\<not> applied r2"
    "apply_product_rule E expr var = Inr r3" "\<not> applied r3"
    "apply_chain_rule E expr var = Inr r4" "\<not> applied r4"
    "apply_exponential_derivative_rule E expr var = Inr r5" "\<not> applied r5"
    by (elim conjE exE)
  then show ?thesis by (simp add: auto_unfolded)
qed

lemma fallback_when_not_applied:
  assumes "apply_derivative_rule E expr var ''auto'' = Inr (Some r0)" and "\<not> applied r0"
  shows "\<exists>f. parsed E expr var = Inr f \<and>
           differentiate_with_rules E expr var =
             Inr \<lparr>input_expr = f,
                  output_expr = eng_simplify E (eng_diff E f (get_symbol var)),
                  applied = True, rule_name = ''symbolic_fallback'',
                  message = ''No simple rule matched; used symbolic differentiation fallback.'',
                  steps = [''Apply generic symbolic derivative d/dx.'']\<rparr>"
proof -
  from dispatcher_parsed [OF assms(1)] obtain f where f: "parsed E expr var = Inr f" by blast
  with assms show ?thesis by (simp add: differentiate_unfolded)
qed

lemma constant_multiple_parsed:
  assumes "parsed E expr var = Inr f"
  shows "apply_constant_multiple_derivative E expr var =
     (let x = get_symbol var;
          f_s = eng_factor_terms E f;
          c = fst (eng_as_independent E f_s x);
          rest = snd (eng_as_independent E f_s x)
      in if c = Number 1
         then Inr (not_applicable f_s ''constant_multiple_rule''
                ''Not applicable: no constant multiple factor found.'')
         else Inr \<lparr>input_expr = f_s,
                   output_expr = eng_simplify E (eng_mul E c (eng_diff E rest x)),
                   applied = True, rule_name = ''constant_multiple_rule'',
                   message = ''Applied constant multiple rule for derivatives.'',
                   steps = [''Factor out constant c = '' @ eng_str E c @ ''.'',
                            ''Differentiate the remaining part.'']\<rparr>)"
  unfolding apply_constant_multiple_derivative_def Let_def parse_expr_parsed assms
  by (simp add: case_prod_beta)

text \<open>
  C7. The fallback differentiator first runs the dispatcher in auto mode: an applied
  result is returned as it is, an error is passed on, and a result that is not applied is
  replaced by the fallback result: the parsed expression as input, its simplified
  derivative as output, applied, named \<^verbatim>\<open>symbolic_fallback\<close>, with its fixed message
  and one step. Every result it returns is applied. So on an expression that no matcher
  accepts the result is the fallback result; this is the case of \<^verbatim>\<open>x^x\<close> with an engine
  that reads the text as the power of the variable to the variable, leaves this power
  as it is when simplifying, does not find its expansion a polynomial and splits no
  constant factor off it.
\<close>

theorem fallback_always_applied:
  "(\<forall>r. apply_derivative_rule E expr var ''auto'' = Inr (Some r) \<and> applied r \<longrightarrow>
      differentiate_with_rules E expr var = Inr r) \<and>
   (\<forall>err. apply_derivative_rule E expr var ''auto'' = Inl err \<longrightarrow>
      differentiate_with_rules E expr var = Inl err) \<and>
   (\<forall>r. apply_derivative_rule E expr var ''auto'' = Inr (Some r) \<and> \<not> applied r \<longrightarrow>
      (\<exists>f. parsed E expr var = Inr f \<and>
         differentiate_with_rules E expr var =
           Inr \<lparr>input_expr = f,
                output_expr = eng_simplify E (eng_diff E f (get_symbol var)),
                applied = True, rule_name = ''symbolic_fallback'',
                message = ''No simple rule matched; used symbolic differentiation fallback.'',
                steps = [''Apply generic symbolic derivative d/dx.'']\<rparr>)) \<and>
   (\<forall>r. differentiate_with_rules E expr var = Inr r \<longrightarrow> applied r) \<and>
   ((\<forall>m \<in> snd ` set rule_map. \<exists>r. m E expr var = Inr r \<and> \<not> applied r) \<longrightarrow>
      (\<exists>r. differentiate_with_rules E expr var = Inr r \<and> applied r \<and>
           rule_name r = ''symbolic_fallback'')) \<and>
   (eng_parse E ''x^x'' [(''x'', Symbol ''x'')] = Some (Pow (Symbol ''x'') (Symbol ''x'')) \<and>
    eng_simplify E (Pow (Symbol ''x'') (Symbol ''x'')) = Pow (Symbol ''x'') (Symbol ''x'') \<and>
    \<not> eng_is_polynomial E (eng_expand E (Pow (Symbol ''x'') (Symbol ''x''))) (Symbol ''x'') \<and>
    fst (eng_as_independent E (eng_factor_terms E (Pow (Symbol ''x'') (Symbol ''x'')))
           (Symbol ''x'')) = Number 1 \<longrightarrow>
    differentiate_with_rules E (Text ''x^x'') (VarName ''x'') =
      Inr \<lparr>input_expr = Pow (Symbol ''x'') (Symbol ''x''),
           output_expr =
             eng_simplify E (eng_diff E (Pow (Symbol ''x'') (Symbol ''x'')) (Symbol ''x'')),
           applied = True, rule_name = ''symbolic_fallback'',
           message = ''No simple rule matched; used symbolic differentiation fallback.'',
           steps = [''Apply generic symbolic derivative d/dx.'']\<rparr>)"
proof (intro conjI allI impI)
  fix r assume "apply_derivative_rule E expr var ''auto'' = Inr (Some r) \<and> applied r"
  then show "differentiate_with_rules E expr var = Inr r"
    by (simp add: differentiate_unfolded)
next
  fix err assume "apply_derivative_rule E expr var ''auto'' = Inl err"
  then show "differentiate_with_rules E expr var = Inl err"
    by (simp add: differentiate_unfolded)
next
  fix r assume "apply_derivative_rule E expr var ''auto'' = Inr (Some r) \<and> \<not> applied r"
  then show "\<exists>f. parsed E expr var = Inr f \<and>
         differentiate_with_rules E expr var =
           Inr \<lparr>input_expr = f,
                output_expr = eng_simplify E (eng_diff E f (get_symbol var)),
                applied = True, rule_name = ''symbolic_fallback'',
                message = ''No simple rule matched; used symbolic differentiation fallback.'',
                steps = [''Apply generic symbolic derivative d/dx.'']\<rparr>"
    using fallback_when_not_applied by blast
next
  fix r assume "differentiate_with_rules E expr var = Inr r"
  from differentiate_result [OF this] show "applied r" by simp
next
  assume "\<forall>m \<in> snd ` set rule_map. \<exists>r. m E expr var = Inr r \<and> \<not> applied r"
  from no_matcher_applies [OF this] obtain r0 where
    "apply_derivative_rule E expr var ''auto'' = Inr (Some r0)" "\<not> applied r0" by blast
  from fallback_when_not_applied [OF this]
  show "\<exists>r. differentiate_with_rules E expr var = Inr r \<and> applied r \<and>
           rule_name r = ''symbolic_fallback''"
    by auto
next
  let ?x = "Symbol ''x''"
  let ?e = "Pow ?x ?x"
  let ?t = "Text ''x^x''"
  let ?v = "VarName ''x''"
  assume h: "eng_parse E ''x^x'' [(''x'', ?x)] = Some ?e \<and>
    eng_simplify E ?e = ?e \<and>
    \<not> eng_is_polynomial E (eng_expand E ?e) ?x \<and>
    fst (eng_as_independent E (eng_factor_terms E ?e) ?x) = Number 1"
  then have p: "parsed E ?t ?v = Inr ?e" by (simp add: parsed_Text)
  from h have r1: "\<exists>r. apply_power_rule_derivative E ?t ?v = Inr r \<and> \<not> applied r"
    unfolding power_rule_parsed [OF p] by simp
  from h have r2: "\<exists>r. apply_constant_multiple_derivative E ?t ?v = Inr r \<and> \<not> applied r"
    unfolding constant_multiple_parsed [OF p] Let_def by simp
  from h have r3: "\<exists>r. apply_product_rule E ?t ?v = Inr r \<and> \<not> applied r"
    unfolding product_rule_parsed [OF p] Let_def by simp
  from chain_rule_parsed [OF p] h
  have r4: "\<exists>r. apply_chain_rule E ?t ?v = Inr r \<and> \<not> applied r"
    by (auto simp: chain_pattern_def)
  have r5: "\<exists>r. apply_exponential_derivative_rule E ?t ?v = Inr r \<and> \<not> applied r"
    unfolding exponential_rule_parsed [OF p] by simp
  from r1 r2 r3 r4 r5
  have "\<forall>m \<in> snd ` set rule_map. \<exists>r. m E ?t ?v = Inr r \<and> \<not> applied r"
    by (simp add: set_rule_map)
  from no_matcher_applies [OF this] obtain r0 where
    "apply_derivative_rule E ?t ?v ''auto'' = Inr (Some r0)" "\<not> applied r0" by blast
  from fallback_when_not_applied [OF this] p
  show "differentiate_with_rules E ?t ?v =
      Inr \<lparr>input_expr = ?e, output_expr = eng_simplify E (eng_diff E ?e ?x),
           applied = True, rule_name = ''symbolic_fallback'',
           message = ''No simple rule matched; used symbolic differentiation fallback.'',
           steps = [''Apply generic symbolic derivative d/dx.'']\<rparr>"
    by simp
qed

theorem fallback_always_applied_witness:
  "eng_parse ref_engine ''x^x'' [(''x'', Symbol ''x'')] = Some (Pow (Symbol ''x'') (Symbol ''x'')) \<and>
   eng_simplify ref_engine (Pow (Symbol ''x'') (Symbol ''x'')) = Pow (Symbol ''x'') (Symbol ''x'') \<and>
   \<not> eng_is_polynomial ref_engine (eng_expand ref_engine (Pow (Symbol ''x'') (Symbol ''x'')))
        (Symbol ''x'') \<and>
   fst (eng_as_independent ref_engine (eng_factor_terms ref_engine (Pow (Symbol ''x'') (Symbol ''x'')))
          (Symbol ''x'')) = Number 1 \<and>
   differentiate_with_rules ref_engine (Text ''x^x'') (VarName ''x'') =
      Inr \<lparr>input_expr = Pow (Symbol ''x'') (Symbol ''x''),
           output_expr =
             eng_simplify ref_engine
               (eng_diff ref_engine (Pow (Symbol ''x'') (Symbol ''x'')) (Symbol ''x'')),
           applied = True, rule_name = ''symbolic_fallback'',
           message = ''No simple rule matched; used symbolic differentiation fallback.'',
           steps = [''Apply generic symbolic derivative d/dx.'']\<rparr> \<and>
   apply_derivative_rule ref_engine (Text ''2^x'') (VarName ''x'') ''auto'' =
      Inr (Some \<lparr>input_expr = Pow (Number 2) (Symbol ''x''),
                 output_expr = Mul [Pow (Number 2) (Symbol ''x''), Log (Number 2)],
                 applied = True, rule_name = ''exponential_rule'',
                 message = ''Applied exponential derivative rule.'',
                 steps = [''Match pattern a^x with constant a.'',
                          ''Derivative: a^x ln(a).'']\<rparr>) \<and>
   differentiate_with_rules ref_engine (Text ''2^x'') (VarName ''x'') =
      Inr \<lparr>input_expr = Pow (Number 2) (Symbol ''x''),
           output_expr = Mul [Pow (Number 2) (Symbol ''x''), Log (Number 2)],
           applied = True, rule_name = ''exponential_rule'',
           message = ''Applied exponential derivative rule.'',
           steps = [''Match pattern a^x with constant a.'', ''Derivative: a^x ln(a).'']\<rparr>"
proof -
  let ?x = "Symbol ''x''"
  let ?e = "Pow ?x ?x"
  let ?R = "\<lparr>input_expr = Pow (Number 2) (Symbol ''x''),
           output_expr = Mul [Pow (Number 2) (Symbol ''x''), Log (Number 2)],
           applied = True, rule_name = ''exponential_rule'',
           message = ''Applied exponential derivative rule.'',
           steps = [''Match pattern a^x with constant a.'', ''Derivative: a^x ln(a).'']\<rparr>"
  have a: "eng_parse ref_engine ''x^x'' [(''x'', ?x)] = Some ?e"
    by (simp add: ref_parse_def known_texts_def)
  have b: "eng_simplify ref_engine ?e = ?e" by simp
  have c: "\<not> eng_is_polynomial ref_engine (eng_expand ref_engine ?e) ?x"
    by (simp add: ref_is_polynomial_def)
  have d: "fst (eng_as_independent ref_engine (eng_factor_terms ref_engine ?e) ?x) = Number 1"
    by (simp add: ref_as_independent_def)
  have e: "apply_derivative_rule ref_engine (Text ''2^x'') (VarName ''x'') ''auto'' = Inr (Some ?R)"
    by code_simp
  have f: "applied ?R" by simp
  note T = fallback_always_applied [of ref_engine _ "VarName ''x''"]
  from a b c d T [of "Text ''x^x''"]
  have "differentiate_with_rules ref_engine (Text ''x^x'') (VarName ''x'') =
      Inr \<lparr>input_expr = ?e,
           output_expr = eng_simplify ref_engine (eng_diff ref_engine ?e ?x),
           applied = True, rule_name = ''symbolic_fallback'',
           message = ''No simple rule matched; used symbolic differentiation fallback.'',
           steps = [''Apply generic symbolic derivative d/dx.'']\<rparr>"
    by blast
  moreover from e f T [of "Text ''2^x''"]
  have "differentiate_with_rules ref_engine (Text ''2^x'') (VarName ''x'') = Inr ?R"
    by blast
  ultimately show ?thesis using a b c d e by blast
qed

text \<open>
  C10. With an engine whose expansion does not bring the variable into an expression
  that is free of it, whose polynomial test accepts every expression free of the
  variable, whose derivative of such an expression is 0 and whose simplification leaves 0
  as it is: on every parsed expression that does not contain the variable, whatever
  functions of other symbols it contains, the power rule is applied with output 0, and the
  dispatcher in auto mode returns this result of the power rule, so no later matcher
  decides for such an input.
\<close>

theorem variable_free_is_power_rule:
  "(\<forall>e'. \<not> has e' (get_symbol var) \<longrightarrow> \<not> has (eng_expand E e') (get_symbol var)) \<and>
   (\<forall>e'. \<not> has e' (get_symbol var) \<longrightarrow> eng_is_polynomial E e' (get_symbol var)) \<and>
   (\<forall>e'. \<not> has e' (get_symbol var) \<longrightarrow> eng_diff E e' (get_symbol var) = Number 0) \<and>
   eng_simplify E (Number 0) = Number 0 \<and>
   parsed E expr var = Inr e \<and> \<not> has e (get_symbol var) \<longrightarrow>
   apply_power_rule_derivative E expr var =
     Inr \<lparr>input_expr = eng_expand E e, output_expr = Number 0, applied = True,
          rule_name = ''power_rule'',
          message = ''Applied power rule term-by-term (polynomial).'',
          steps = [''Recognize polynomial in x.'', ''Differentiate each term.'']\<rparr> \<and>
   apply_derivative_rule E expr var ''auto'' =
     Inr (Some \<lparr>input_expr = eng_expand E e, output_expr = Number 0, applied = True,
                rule_name = ''power_rule'',
                message = ''Applied power rule term-by-term (polynomial).'',
                steps = [''Recognize polynomial in x.'', ''Differentiate each term.'']\<rparr>)"
proof (intro impI)
  let ?x = "get_symbol var"
  assume h: "(\<forall>e'. \<not> has e' ?x \<longrightarrow> \<not> has (eng_expand E e') ?x) \<and>
   (\<forall>e'. \<not> has e' ?x \<longrightarrow> eng_is_polynomial E e' ?x) \<and>
   (\<forall>e'. \<not> has e' ?x \<longrightarrow> eng_diff E e' ?x = Number 0) \<and>
   eng_simplify E (Number 0) = Number 0 \<and>
   parsed E expr var = Inr e \<and> \<not> has e ?x"
  then have p: "parsed E expr var = Inr e" by simp
  from h have free: "\<not> has (eng_expand E e) ?x" by blast
  with h have poly: "eng_is_polynomial E (eng_expand E e) ?x" by blast
  from h free have zero: "eng_diff E (eng_expand E e) ?x = Number 0" by blast
  from h have simp0: "eng_simplify E (Number 0) = Number 0" by simp
  have power: "apply_power_rule_derivative E expr var =
     Inr \<lparr>input_expr = eng_expand E e, output_expr = Number 0, applied = True,
          rule_name = ''power_rule'',
          message = ''Applied power rule term-by-term (polynomial).'',
          steps = [''Recognize polynomial in x.'', ''Differentiate each term.'']\<rparr>"
    unfolding power_rule_parsed [OF p] by (simp add: poly zero simp0)
  then show "apply_power_rule_derivative E expr var =
     Inr \<lparr>input_expr = eng_expand E e, output_expr = Number 0, applied = True,
          rule_name = ''power_rule'',
          message = ''Applied power rule term-by-term (polynomial).'',
          steps = [''Recognize polynomial in x.'', ''Differentiate each term.'']\<rparr> \<and>
   apply_derivative_rule E expr var ''auto'' =
     Inr (Some \<lparr>input_expr = eng_expand E e, output_expr = Number 0, applied = True,
                rule_name = ''power_rule'',
                message = ''Applied power rule term-by-term (polynomial).'',
                steps = [''Recognize polynomial in x.'', ''Differentiate each term.'']\<rparr>)"
    by (simp add: auto_unfolded)
qed

theorem variable_free_is_power_rule_witness:
  "eng_simplify ref_engine (Number 0) = Number 0 \<and>
   parsed ref_engine (Text ''sin(y)'') (VarName ''x'') = Inr (Sin (Symbol ''y'')) \<and>
   \<not> has (Sin (Symbol ''y'')) (get_symbol (VarName ''x'')) \<and>
   apply_power_rule_derivative ref_engine (Text ''sin(y)'') (VarName ''x'') =
     Inr \<lparr>input_expr = Sin (Symbol ''y''), output_expr = Number 0, applied = True,
          rule_name = ''power_rule'',
          message = ''Applied power rule term-by-term (polynomial).'',
          steps = [''Recognize polynomial in x.'', ''Differentiate each term.'']\<rparr> \<and>
   apply_derivative_rule ref_engine (Text ''sin(y)'') (VarName ''x'') ''auto'' =
     Inr (Some \<lparr>input_expr = Sin (Symbol ''y''), output_expr = Number 0, applied = True,
                rule_name = ''power_rule'',
                message = ''Applied power rule term-by-term (polynomial).'',
                steps = [''Recognize polynomial in x.'', ''Differentiate each term.'']\<rparr>) \<and>
   parsed ref_engine (Text ''7'') (VarName ''x'') = Inr (Number 7) \<and>
   apply_derivative_rule ref_engine (Text ''7'') (VarName ''x'') ''auto'' =
     Inr (Some \<lparr>input_expr = Number 7, output_expr = Number 0, applied = True,
                rule_name = ''power_rule'',
                message = ''Applied power rule term-by-term (polynomial).'',
                steps = [''Recognize polynomial in x.'', ''Differentiate each term.'']\<rparr>)"
proof -
  let ?v = "VarName ''x''"
  have a: "\<forall>e'. \<not> has e' (get_symbol ?v) \<longrightarrow> \<not> has (eng_expand ref_engine e') (get_symbol ?v)"
    by simp
  have b: "\<forall>e'. \<not> has e' (get_symbol ?v) \<longrightarrow> eng_is_polynomial ref_engine e' (get_symbol ?v)"
    by (simp add: ref_is_polynomial_def)
  have c: "\<forall>e'. \<not> has e' (get_symbol ?v) \<longrightarrow> eng_diff ref_engine e' (get_symbol ?v) = Number 0"
    by (simp add: ref_diff_def)
  have d: "eng_simplify ref_engine (Number 0) = Number 0" by simp
  have e: "parsed ref_engine (Text ''sin(y)'') ?v = Inr (Sin (Symbol ''y''))"
    by (simp add: parsed_Text ref_parse_def known_texts_def)
  have f: "\<not> has (Sin (Symbol ''y'')) (get_symbol ?v)" by simp
  have g: "parsed ref_engine (Text ''7'') ?v = Inr (Number 7)"
    by (simp add: parsed_Text ref_parse_def known_texts_def)
  have h: "\<not> has (Number 7) (get_symbol ?v)" by simp
  have i: "eng_expand ref_engine (Sin (Symbol ''y'')) = Sin (Symbol ''y'')"
          "eng_expand ref_engine (Number 7) = Number 7"
    by simp_all
  from a b c d e f
    variable_free_is_power_rule [of ?v ref_engine "Text ''sin(y)''" "Sin (Symbol ''y'')"]
  have 1: "apply_power_rule_derivative ref_engine (Text ''sin(y)'') ?v =
     Inr \<lparr>input_expr = eng_expand ref_engine (Sin (Symbol ''y'')), output_expr = Number 0,
          applied = True, rule_name = ''power_rule'',
          message = ''Applied power rule term-by-term (polynomial).'',
          steps = [''Recognize polynomial in x.'', ''Differentiate each term.'']\<rparr> \<and>
   apply_derivative_rule ref_engine (Text ''sin(y)'') ?v ''auto'' =
     Inr (Some \<lparr>input_expr = eng_expand ref_engine (Sin (Symbol ''y'')), output_expr = Number 0,
                applied = True, rule_name = ''power_rule'',
                message = ''Applied power rule term-by-term (polynomial).'',
                steps = [''Recognize polynomial in x.'', ''Differentiate each term.'']\<rparr>)"
    by blast
  from a b c d g h
    variable_free_is_power_rule [of ?v ref_engine "Text ''7''" "Number 7"]
  have 2: "apply_derivative_rule ref_engine (Text ''7'') ?v ''auto'' =
     Inr (Some \<lparr>input_expr = eng_expand ref_engine (Number 7), output_expr = Number 0,
                applied = True, rule_name = ''power_rule'',
                message = ''Applied power rule term-by-term (polynomial).'',
                steps = [''Recognize polynomial in x.'', ''Differentiate each term.'']\<rparr>)"
    by blast
  from 1 2 show ?thesis
    unfolding i using d e f g by blast
qed

end
